theory Spec2Isabelle
  imports Main "HOL-Library.Word"
begin

section \<open>JavaScript strings\<close>

text \<open>
  A JavaScript string is a sequence of 16-bit code units, and \<open>length\<close>, \<open>trim\<close>,
  \<open>split\<close> and the regular expressions of the parser (none has the \<open>u\<close> flag) all work
  on code units. A string is therefore a list of 16-bit words. \<open>ascii\<close> embeds an ASCII
  literal.
\<close>

type_synonym jschar = "16 word"
type_synonym jsstring = "jschar list"

definition ascii :: "string \<Rightarrow> jsstring" where
  "ascii s = map of_char s"

text \<open>
  The white space of \<open>String.prototype.trim\<close> and of the regular expression class
  \<open>\s\<close>: the WhiteSpace and LineTerminator code points of ECMAScript.
\<close>

definition is_ws :: "jschar \<Rightarrow> bool" where
  "is_ws c = (c \<in> set [0x9, 0xA, 0xB, 0xC, 0xD, 0x20, 0xA0, 0x1680, 0x2028, 0x2029,
                          0x202F, 0x205F, 0x3000, 0xFEFF]
              \<or> (0x2000 \<le> c \<and> c \<le> 0x200A))"

text \<open>The regular expression class \<open>\w\<close>: \<open>[A-Za-z0-9_]\<close>.\<close>

definition is_word_char :: "jschar \<Rightarrow> bool" where
  "is_word_char c = ((0x30 \<le> c \<and> c \<le> 0x39) \<or> (0x41 \<le> c \<and> c \<le> 0x5A) \<or> c = 0x5F
                     \<or> (0x61 \<le> c \<and> c \<le> 0x7A))"

definition trim :: "jsstring \<Rightarrow> jsstring" where
  "trim s = rev (dropWhile is_ws (rev (dropWhile is_ws s)))"

definition startsWith :: "jsstring \<Rightarrow> jsstring \<Rightarrow> bool" where
  "startsWith s p = (take (length p) s = p)"

definition endsWith :: "jsstring \<Rightarrow> jsstring \<Rightarrow> bool" where
  "endsWith s p = (length p \<le> length s \<and> drop (length s - length p) s = p)"

text \<open>\<open>s.includes(c)\<close> for a one-character string \<open>c\<close>.\<close>

definition includes_char :: "jsstring \<Rightarrow> jschar \<Rightarrow> bool" where
  "includes_char s c = (c \<in> set s)"

text \<open>
  \<open>s.split(sep)\<close> for a one-character separator: the fields between the occurrences of
  \<open>sep\<close>; the empty string gives one empty field. The second argument is the field being
  read.
\<close>

fun split_from :: "jschar \<Rightarrow> jsstring \<Rightarrow> jsstring \<Rightarrow> jsstring list" where
  "split_from sep cur [] = [cur]"
| "split_from sep cur (c # cs) =
     (if c = sep then cur # split_from sep [] cs else split_from sep (cur @ [c]) cs)"

definition split :: "jsstring \<Rightarrow> jschar \<Rightarrow> jsstring list" where
  "split s sep = split_from sep [] s"

text \<open>
  \<open>s.split(/\s+/)\<close>: a separator is a maximal run of white space (the match is greedy), a
  leading or trailing run leaves an empty first or last field, and the empty string gives
  one empty field.
\<close>

function split_ws_from :: "jsstring \<Rightarrow> jsstring \<Rightarrow> jsstring list" where
  "split_ws_from cur [] = [cur]"
| "split_ws_from cur (c # cs) =
     (if is_ws c then cur # split_ws_from [] (dropWhile is_ws cs)
      else split_ws_from (cur @ [c]) cs)"
  by pat_completeness auto
termination
  by (relation "measure (\<lambda>(cur, s). length s)")
     (auto simp: le_imp_less_Suc length_dropWhile_le)

definition split_ws :: "jsstring \<Rightarrow> jsstring list" where
  "split_ws s = split_ws_from [] s"

subsection \<open>Numbers\<close>

text \<open>
  The numbers of the parser come from \<open>parseInt\<close> and from counting. Such a number is
  \<open>NaN\<close>, an infinity, or a double whose value is an integer: \<open>Num n\<close> is the double of
  value \<open>n\<close>. \<open>round_double\<close> is the double nearest to an integer, ties going to the
  even significand: up to 2^53 every integer is a double, beyond that the integer keeps
  its first 53 bits. From 2^1024 - 2^970 on the nearest double is an infinity. The two
  zeros are one number here: both are falsy and both print as \<open>0\<close>.
\<close>

datatype jsnum = NaN | Num int | Infinity | NegInfinity

function bit_length :: "nat \<Rightarrow> nat" where
  "bit_length n = (if n = 0 then 0 else Suc (bit_length (n div 2)))"
  by pat_completeness auto
termination
  by (relation "measure id") auto

declare bit_length.simps [simp del]

definition round_double :: "nat \<Rightarrow> nat" where
  "round_double m =
     (if m < 9007199254740992 then m
      else let e = bit_length m - 53;
               q = m div 2 ^ e;
               r = m mod 2 ^ e;
               half = 2 ^ (e - 1)
           in (if half < r \<or> (r = half \<and> odd q) then q + 1 else q) * 2 ^ e)"

text \<open>The number of a sign and a magnitude.\<close>

definition number_of :: "bool \<Rightarrow> nat \<Rightarrow> jsnum" where
  "number_of negative m =
     (if m < 9007199254740992 then Num (if negative then - int m else int m)
      else let r = round_double m
           in if 2 ^ 1024 \<le> r then (if negative then NegInfinity else Infinity)
              else Num (if negative then - int r else int r))"

definition is_digit :: "jschar \<Rightarrow> bool" where
  "is_digit c = (0x30 \<le> c \<and> c \<le> 0x39)"

definition digit_value :: "jschar \<Rightarrow> int" where
  "digit_value c = int (unat c) - 48"

definition decimal_value :: "jsstring \<Rightarrow> int" where
  "decimal_value ds = foldl (\<lambda>n c. 10 * n + digit_value c) 0 ds"

text \<open>
  \<open>parseInt(s, 10)\<close>: leading white space is skipped, one sign is read, then the longest
  run of decimal digits; without a digit the result is \<open>NaN\<close>, else the number of the sign
  and the digits. (ECMAScript lets an implementation approximate the digits after the
  twentieth; the model rounds the exact value, as the engines do.)
\<close>

definition parseInt :: "jsstring \<Rightarrow> jsnum" where
  "parseInt s =
     (let t = dropWhile is_ws s;
          neg = (case t of [] \<Rightarrow> False | c # _ \<Rightarrow> c = 0x2D);
          u = (case t of [] \<Rightarrow> [] | c # r \<Rightarrow> if c = 0x2B \<or> c = 0x2D then r else t);
          z = takeWhile is_digit u
      in if z = [] then NaN else number_of neg (nat (decimal_value z)))"

text \<open>The decimal text of a count, as a template literal prints it.\<close>

definition digit_char :: "nat \<Rightarrow> jschar" where
  "digit_char d = of_nat (48 + d)"

function show_nat :: "nat \<Rightarrow> jsstring" where
  "show_nat n = (if n < 10 then [digit_char n] else show_nat (n div 10) @ [digit_char (n mod 10)])"
  by pat_completeness auto
termination
  by (relation "measure id") auto

declare show_nat.simps [simp del]

text \<open>
  The text of a number, as a template literal prints it (\<open>Number::toString\<close>). A double
  below 2^53 prints as its integer. Above, the text has the fewest significant digits
  that still read back as the same double, and of the candidates with that many digits
  the one closest to the double (the even one of two equally close), followed by zeros;
  from 10^21 on it is in exponent notation. \<open>candidate m k\<close> is the value printed with \<open>k\<close>
  significant digits, if one reads back as \<open>m\<close>: only the two multiples of the power of
  ten that enclose \<open>m\<close> can be closest.
\<close>

definition candidate :: "nat \<Rightarrow> nat \<Rightarrow> nat option" where
  "candidate m k =
     (let p = 10 ^ (length (show_nat m) - k);
          lo = (m div p) * p;
          hi = lo + p;
          lo_ok = (round_double lo = m);
          hi_ok = (round_double hi = m)
      in if lo_ok \<and> hi_ok then
           Some (if m - lo < hi - m then lo
                 else if hi - m < m - lo then hi
                 else if even (m div p) then lo else hi)
         else if lo_ok then Some lo
         else if hi_ok then Some hi
         else None)"

definition shortest :: "nat \<Rightarrow> nat" where
  "shortest m = (case List.map_filter (candidate m) [1..<18] of [] \<Rightarrow> m | c # _ \<Rightarrow> c)"

definition exponent_form :: "nat \<Rightarrow> jsstring" where
  "exponent_form c =
     (let ds = show_nat c;
          sig = rev (dropWhile (\<lambda>d. d = 0x30) (rev ds))
      in (case sig of
            [] \<Rightarrow> []
          | d # frac \<Rightarrow> d # (if frac = [] then [] else 0x2E # frac))
         @ ascii ''e+'' @ show_nat (length ds - 1))"

definition show_double :: "nat \<Rightarrow> jsstring" where
  "show_double m =
     (if m < 9007199254740992 then show_nat m
      else let c = shortest m
           in if c < 10 ^ 21 then show_nat c else exponent_form c)"

definition show_num :: "jsnum \<Rightarrow> jsstring" where
  "show_num x =
     (case x of
        NaN \<Rightarrow> ascii ''NaN''
      | Infinity \<Rightarrow> ascii ''Infinity''
      | NegInfinity \<Rightarrow> ascii ''-Infinity''
      | Num i \<Rightarrow> if i < 0 then 0x2D # show_double (nat (- i)) else show_double (nat i))"

text \<open>The truth value of a number, and its comparison with an integer constant.\<close>

definition num_truthy :: "jsnum \<Rightarrow> bool" where
  "num_truthy x = (case x of NaN \<Rightarrow> False | Num n \<Rightarrow> n \<noteq> 0 | _ \<Rightarrow> True)"

definition num_less :: "jsnum \<Rightarrow> int \<Rightarrow> bool" where
  "num_less x k = (case x of Num n \<Rightarrow> n < k | NegInfinity \<Rightarrow> True | _ \<Rightarrow> False)"

definition num_greater :: "jsnum \<Rightarrow> int \<Rightarrow> bool" where
  "num_greater x k = (case x of Num n \<Rightarrow> k < n | Infinity \<Rightarrow> True | _ \<Rightarrow> False)"

section \<open>The notation-line splitter\<close>

text \<open>
  \<open>VnaParser.parseNotationLine\<close> (parser.ts). The body of \<open>beats.forEach\<close> is
  \<open>forEach_beat\<close>, over the beats still to visit: the test \<open>i < beats.length - 1\<close> of the
  source holds exactly when a beat remains after the current one. The state is the token
  list, the beat positions and \<open>currentPos\<close>.
\<close>

fun forEach_beat ::
  "jsstring list \<Rightarrow> jsstring list \<times> nat list \<times> nat \<Rightarrow> jsstring list \<times> nat list \<times> nat" where
  "forEach_beat [] st = st"
| "forEach_beat (beat # rest) (tokens, beatPositions, currentPos) =
     (let beatTokens = filter (\<lambda>t. t \<noteq> []) (split_ws (trim beat));
          tokens' = tokens @ beatTokens;
          currentPos' = currentPos + length beatTokens
      in forEach_beat rest
           (tokens',
            if rest \<noteq> [] \<and> currentPos' > 0 then beatPositions @ [currentPos'] else beatPositions,
            currentPos'))"

definition parseNotationLine :: "jsstring \<Rightarrow> jsstring list \<times> nat list" where
  "parseNotationLine line =
     (let cleanLine = (if endsWith line (ascii ''||'') then trim (take (length line - 2) line)
                       else trim line);
          beats = split cleanLine 0x7C;
          (tokens, beatPositions, currentPos) = forEach_beat beats ([], [], 0)
      in (tokens, beatPositions))"

section \<open>The document model\<close>

text \<open>
  The interfaces of parser.ts. An optional field is an \<open>option\<close>. The metadata object
  is built by \<open>metadata[key] = value\<close> for the keys the file gives: the keys \<open>tempo\<close> and
  \<open>gati\<close> always hold the number \<open>parseInt\<close> returned, every other key holds the text of
  its value, so the object is a record of the two numeric fields and a map of the text
  fields. Fields that several interfaces share (\<open>gati\<close>, \<open>line_number\<close>) carry the
  interface's name.
\<close>

record Metadata =
  text_fields :: "jsstring \<rightharpoonup> jsstring"
  tempo :: "jsnum option"
  metadata_gati :: "jsnum option"

record Phrase =
  swaras :: "jsstring list"
  sahitya :: "jsstring list"
  phrase_analysis :: "jsstring option"
  phrase_line_number :: nat
  beat_positions :: "nat list"
  phrase_gati :: "jsnum option"

record Section =
  name :: jsstring
  phrases :: "Phrase list"
  section_line_number :: nat
  section_gati :: "jsnum option"

record VnaDocument =
  metadata :: Metadata
  sections :: "Section list"

datatype severity = Error | Warning | Info

record ValidationIssue =
  severity :: severity
  message :: jsstring
  line :: nat

text \<open>
  The exceptions of the parser, one constructor for each \<open>throw new Error(...)\<close>, and the
  message each carries.
\<close>

datatype error =
    MissingFrontmatter
  | MissingRequiredFields
  | UnexpectedContent nat
  | UnexpectedContentInSection nat
  | BeatMisaligned nat

fun error_message :: "error \<Rightarrow> jsstring" where
  "error_message MissingFrontmatter = ascii ''Missing YAML frontmatter''"
| "error_message MissingRequiredFields = ascii ''Missing required metadata fields''"
| "error_message (UnexpectedContent n) = ascii ''Unexpected content at line '' @ show_nat n"
| "error_message (UnexpectedContentInSection n) =
     ascii ''Unexpected content in section at line '' @ show_nat n"
| "error_message (BeatMisaligned n) = ascii ''Beat markers misaligned at line '' @ show_nat n"

section \<open>The parser\<close>

text \<open>
  The instance state of \<open>VnaParser\<close>. Every method takes the state and returns the new
  one; a method that can throw returns \<open>Inl\<close> of the error with the state at the throw.
\<close>

record VnaParser =
  lines :: "jsstring list"
  currentLine :: nat

type_synonym 'a result = "(error + 'a) \<times> VnaParser"

definition currentLineTrimmed :: "VnaParser \<Rightarrow> jsstring" where
  "currentLineTrimmed this =
     (if currentLine this < length (lines this) then trim (lines this ! currentLine this) else [])"

definition currentLineStartsWith :: "VnaParser \<Rightarrow> jsstring \<Rightarrow> bool" where
  "currentLineStartsWith this prefix = startsWith (currentLineTrimmed this) prefix"

definition advanceLine :: "VnaParser \<Rightarrow> VnaParser" where
  "advanceLine this = this\<lparr>currentLine := currentLine this + 1\<rparr>"

subsection \<open>Frontmatter\<close>

text \<open>
  \<open>line.match(/^(\w+):\s*"?([^"]*)"?$/)\<close>, giving the two groups. The key is the longest
  run of word characters, which a colon must follow. After the white space and one
  optional quote, the value is the longest run without a quote, and only a single quote
  or nothing may follow it. Backtracking finds no other match: a shorter key is not
  followed by a colon, a shorter value is not followed by the end of the line, and giving
  white space or the opening quote back to the value group matches only where the first
  attempt already did.
\<close>

definition match_yaml :: "jsstring \<Rightarrow> (jsstring \<times> jsstring) option" where
  "match_yaml ln =
     (let key = takeWhile is_word_char ln;
          r0 = dropWhile is_word_char ln
      in if key = [] then None
         else case r0 of
                [] \<Rightarrow> None
              | c # r1 \<Rightarrow>
                  if c \<noteq> 0x3A then None
                  else let r2 = dropWhile is_ws r1;
                           r3 = (case r2 of [] \<Rightarrow> [] | q # r \<Rightarrow> if q = 0x22 then r else r2);
                           val = takeWhile (\<lambda>x. x \<noteq> 0x22) r3;
                           r4 = dropWhile (\<lambda>x. x \<noteq> 0x22) r3
                       in if r4 = [] \<or> r4 = [0x22] then Some (key, val) else None)"

text \<open>
  The body of the loop over \<open>yamlLines\<close>. Assigning a string to the key \<open>__proto__\<close> of an
  object leaves the object as it is.
\<close>

definition assign_yaml :: "Metadata \<Rightarrow> jsstring \<Rightarrow> Metadata" where
  "assign_yaml md ln =
     (case match_yaml ln of
        None \<Rightarrow> md
      | Some (key, val) \<Rightarrow>
          if key = ascii ''tempo'' then md\<lparr>tempo := Some (parseInt val)\<rparr>
          else if key = ascii ''gati'' then md\<lparr>metadata_gati := Some (parseInt val)\<rparr>
          else if key = ascii ''__proto__'' then md
          else md\<lparr>text_fields := (text_fields md)(key \<mapsto> val)\<rparr>)"

definition empty_metadata :: Metadata where
  "empty_metadata = \<lparr>text_fields = Map.empty, tempo = None, metadata_gati = None\<rparr>"

text \<open>\<open>!v\<close> for a text field \<open>v\<close>: true when it is undefined or empty.\<close>

definition falsy_text :: "jsstring option \<Rightarrow> bool" where
  "falsy_text v = (case v of None \<Rightarrow> True | Some s \<Rightarrow> s = [])"

text \<open>The \<open>while\<close> loop of \<open>parseMetadata\<close> that collects \<open>yamlLines\<close>.\<close>

function read_yaml :: "VnaParser \<Rightarrow> jsstring list \<Rightarrow> jsstring list \<times> VnaParser" where
  "read_yaml this yamlLines =
     (if currentLine this < length (lines this) then
        (let ln = lines this ! currentLine this
         in if trim ln = ascii ''---'' then (yamlLines, advanceLine this)
            else read_yaml (advanceLine this) (yamlLines @ [ln]))
      else (yamlLines, this))"
  by pat_completeness auto
termination
  by (relation "measure (\<lambda>(this, y). length (lines this) - currentLine this)")
     (auto simp: advanceLine_def)

declare read_yaml.simps [simp del]

definition parseMetadata :: "VnaParser \<Rightarrow> Metadata result" where
  "parseMetadata this =
     (if \<not> currentLineStartsWith this (ascii ''---'') then (Inl MissingFrontmatter, this)
      else let (yamlLines, this') = read_yaml (advanceLine this) [];
               md = foldl assign_yaml empty_metadata yamlLines
           in if falsy_text (text_fields md (ascii ''title''))
                 \<or> falsy_text (text_fields md (ascii ''raga''))
                 \<or> falsy_text (text_fields md (ascii ''tala''))
              then (Inl MissingRequiredFields, this')
              else (Inr md, this'))"

subsection \<open>Phrases\<close>

definition parsePhrase :: "VnaParser \<Rightarrow> Phrase result" where
  "parsePhrase this =
     (let phraseStartLine = currentLine this;
          (lineGati, this1) =
             (if startsWith (currentLineTrimmed this) (ascii ''@gati:'')
              then (Some (parseInt (trim (drop 6 (currentLineTrimmed this)))), advanceLine this)
              else (None, this));
          swaraLine = currentLineTrimmed this1;
          (swaraToks, swaraBeatPositions) = parseNotationLine swaraLine;
          this2 = advanceLine this1;
          sahityaLine = currentLineTrimmed this2;
          (sahityaToks, sahityaBeatPositions) = parseNotationLine sahityaLine;
          this3 = advanceLine this2
      in if swaraBeatPositions \<noteq> sahityaBeatPositions
         then (Inl (BeatMisaligned (phraseStartLine + 1)), this3)
         else let (phraseAnalysis, this4) =
                    (if startsWith (currentLineTrimmed this3) (ascii ''phrases = '')
                     then (Some (drop 10 (currentLineTrimmed this3)), advanceLine this3)
                     else (None, this3))
              in (Inr \<lparr>swaras = swaraToks, sahitya = sahityaToks,
                        phrase_analysis = phraseAnalysis,
                        phrase_line_number = phraseStartLine + 1,
                        beat_positions = swaraBeatPositions,
                        phrase_gati = lineGati\<rparr>, this4))"

lemma parsePhrase_advances:
  "parsePhrase this = (r, this') \<Longrightarrow>
     lines this' = lines this \<and> currentLine this < currentLine this'"
  by (auto simp: parsePhrase_def advanceLine_def Let_def split: prod.splits if_splits)

subsection \<open>Sections\<close>

text \<open>
  The \<open>while\<close> loop of \<open>parseSection\<close>, with \<open>phrases\<close> and \<open>sectionGati\<close> as
  accumulators; \<open>break\<close> and the end of the lines return them.
\<close>

function parseSection_loop ::
  "VnaParser \<Rightarrow> Phrase list \<Rightarrow> jsnum option \<Rightarrow> (Phrase list \<times> jsnum option) result" where
  "parseSection_loop this phs sectionGati =
     (if currentLine this < length (lines this) then
        (let ln = currentLineTrimmed this
         in if ln = [] then parseSection_loop (advanceLine this) phs sectionGati
            else if startsWith ln (ascii ''#'') then
              parseSection_loop (advanceLine this) phs sectionGati
            else if startsWith ln (ascii ''@gati:'') then
              parseSection_loop (advanceLine this) phs (Some (parseInt (trim (drop 6 ln))))
            else if startsWith ln (ascii ''['') \<and> endsWith ln (ascii '']'') then
              (Inr (phs, sectionGati), this)
            else if includes_char ln 0x7C then
              (case parsePhrase this of
                 (Inl e, this') \<Rightarrow> (Inl e, this')
               | (Inr phrase, this') \<Rightarrow> parseSection_loop this' (phs @ [phrase]) sectionGati)
            else (Inl (UnexpectedContentInSection (currentLine this + 1)), this))
      else (Inr (phs, sectionGati), this))"
  by pat_completeness auto
termination
  by (relation "measure (\<lambda>(this, phs, g). length (lines this) - currentLine this)")
     (auto simp: advanceLine_def diff_less_mono2 dest!: sym [THEN parsePhrase_advances])

declare parseSection_loop.simps [simp del]

definition parseSection :: "VnaParser \<Rightarrow> Section result" where
  "parseSection this =
     (let ln = currentLineTrimmed this;
          sectionLine = currentLine this;
          nm = take (length ln - 2) (drop 1 ln)
      in case parseSection_loop (advanceLine this) [] None of
           (Inl e, this') \<Rightarrow> (Inl e, this')
         | (Inr (phs, sectionGati), this') \<Rightarrow>
             (Inr \<lparr>name = nm, phrases = phs, section_line_number = sectionLine + 1,
                    section_gati = sectionGati\<rparr>, this'))"

lemma parseSection_loop_advances:
  "parseSection_loop this phs g = (r, this') \<Longrightarrow>
     lines this' = lines this \<and> currentLine this \<le> currentLine this'"
proof (induction this phs g rule: parseSection_loop.induct)
  case (1 this phs sectionGati)
  note step = "1.prems" [unfolded parseSection_loop.simps [of this phs sectionGati]]
  show ?case
  proof (cases "currentLine this < length (lines this)")
    case False
    with step show ?thesis by simp
  next
    case True
    note inrange = this
    let ?ln = "currentLineTrimmed this"
    consider (blank) "?ln = []"
      | (comment) "?ln \<noteq> []" "startsWith ?ln (ascii ''#'')"
      | (gati) "?ln \<noteq> []" "\<not> startsWith ?ln (ascii ''#'')" "startsWith ?ln (ascii ''@gati:'')"
      | (header) "?ln \<noteq> []" "\<not> startsWith ?ln (ascii ''#'')"
          "\<not> startsWith ?ln (ascii ''@gati:'')"
          "startsWith ?ln (ascii ''['') \<and> endsWith ?ln (ascii '']'')"
      | (phrase) "?ln \<noteq> []" "\<not> startsWith ?ln (ascii ''#'')"
          "\<not> startsWith ?ln (ascii ''@gati:'')"
          "\<not> (startsWith ?ln (ascii ''['') \<and> endsWith ?ln (ascii '']''))"
          "includes_char ?ln 0x7C"
      | (other) "?ln \<noteq> []" "\<not> startsWith ?ln (ascii ''#'')"
          "\<not> startsWith ?ln (ascii ''@gati:'')"
          "\<not> (startsWith ?ln (ascii ''['') \<and> endsWith ?ln (ascii '']''))"
          "\<not> includes_char ?ln 0x7C"
      by blast
    then show ?thesis
    proof cases
      case blank
      with inrange step have "parseSection_loop (advanceLine this) phs sectionGati = (r, this')"
        by (simp add: Let_def)
      from "1.IH"(1) [OF inrange refl blank this] show ?thesis
        by (simp add: advanceLine_def)
    next
      case comment
      with inrange step have "parseSection_loop (advanceLine this) phs sectionGati = (r, this')"
        by (simp add: Let_def)
      from "1.IH"(2) [OF inrange refl comment this] show ?thesis
        by (simp add: advanceLine_def)
    next
      case gati
      with inrange step
      have "parseSection_loop (advanceLine this) phs (Some (parseInt (trim (drop 6 ?ln))))
              = (r, this')"
        by (simp add: Let_def)
      from "1.IH"(3) [OF inrange refl gati this] show ?thesis
        by (simp add: advanceLine_def)
    next
      case header
      with inrange step show ?thesis by (simp add: Let_def)
    next
      case phrase
      obtain q that where pp: "parsePhrase this = (q, that)"
        by (cases "parsePhrase this")
      from parsePhrase_advances [OF pp]
      have adv: "lines that = lines this" "currentLine this < currentLine that" by simp_all
      show ?thesis
      proof (cases q)
        case (Inl e)
        with phrase inrange step pp adv show ?thesis by (auto simp: Let_def)
      next
        case (Inr ph)
        with phrase inrange step pp
        have "parseSection_loop that (phs @ [ph]) sectionGati = (r, this')"
          by (auto simp: Let_def)
        from "1.IH"(4) [OF inrange refl phrase pp [symmetric] Inr this] adv
        show ?thesis by simp
      qed
    next
      case other
      with inrange step show ?thesis by (auto simp: Let_def)
    qed
  qed
qed

lemma parseSection_advances:
  "parseSection this = (r, this') \<Longrightarrow>
     lines this' = lines this \<and> currentLine this < currentLine this'"
proof -
  assume a: "parseSection this = (r, this')"
  obtain q that where l: "parseSection_loop (advanceLine this) [] None = (q, that)"
    by (cases "parseSection_loop (advanceLine this) [] None")
  from parseSection_loop_advances [OF l]
  have "lines that = lines this \<and> currentLine this < currentLine that"
    by (simp add: advanceLine_def)
  moreover from a l have "this' = that"
    by (auto simp: parseSection_def Let_def split: sum.splits prod.splits)
  ultimately show ?thesis by simp
qed

text \<open>The \<open>while\<close> loop of \<open>parseSections\<close>, with \<open>sections\<close> as accumulator.\<close>

function parseSections_loop :: "VnaParser \<Rightarrow> Section list \<Rightarrow> (Section list) result" where
  "parseSections_loop this secs =
     (if currentLine this < length (lines this) then
        (let ln = currentLineTrimmed this
         in if startsWith ln (ascii ''['') \<and> endsWith ln (ascii '']'') then
              (case parseSection this of
                 (Inl e, this') \<Rightarrow> (Inl e, this')
               | (Inr section, this') \<Rightarrow> parseSections_loop this' (secs @ [section]))
            else if trim ln \<noteq> [] \<and> \<not> startsWith ln (ascii ''#'') then
              (Inl (UnexpectedContent (currentLine this + 1)), this)
            else parseSections_loop (advanceLine this) secs)
      else (Inr secs, this))"
  by pat_completeness auto
termination
  by (relation "measure (\<lambda>(this, secs). length (lines this) - currentLine this)")
     (auto simp: advanceLine_def diff_less_mono2 dest!: sym [THEN parseSection_advances])

declare parseSections_loop.simps [simp del]

definition parseSections :: "VnaParser \<Rightarrow> (Section list) result" where
  "parseSections this = parseSections_loop this []"

subsection \<open>parse\<close>

definition parse :: "VnaParser \<Rightarrow> jsstring \<Rightarrow> VnaDocument result" where
  "parse this content =
     (let this0 = this\<lparr>lines := split content 0xA, currentLine := 0\<rparr>
      in case parseMetadata this0 of
           (Inl e, this1) \<Rightarrow> (Inl e, this1)
         | (Inr md, this1) \<Rightarrow>
             (case parseSections this1 of
                (Inl e, this2) \<Rightarrow> (Inl e, this2)
              | (Inr secs, this2) \<Rightarrow> (Inr \<lparr>metadata = md, sections = secs\<rparr>, this2)))"

section \<open>The loops, one iteration at a time\<close>

text \<open>
  One iteration of the \<open>while\<close> loop of \<open>parseSection\<close> that neither throws nor leaves the
  loop: a blank line and a comment are skipped, a \<open>@gati:\<close> line sets the section's gati,
  and a line with \<open>|\<close> starts a phrase that \<open>parsePhrase\<close> returns. The result is \<open>None\<close> when
  the iteration throws, breaks at a section header, or the loop condition is false.
  \<open>section_steps n\<close> is \<open>n\<close> such iterations in a row.
\<close>

definition section_step ::
  "VnaParser \<Rightarrow> Phrase list \<Rightarrow> jsnum option
     \<Rightarrow> (VnaParser \<times> Phrase list \<times> jsnum option) option" where
  "section_step this phs sectionGati =
     (if currentLine this < length (lines this) then
        (let ln = currentLineTrimmed this
         in if ln = [] then Some (advanceLine this, phs, sectionGati)
            else if startsWith ln (ascii ''#'') then Some (advanceLine this, phs, sectionGati)
            else if startsWith ln (ascii ''@gati:'') then
              Some (advanceLine this, phs, Some (parseInt (trim (drop 6 ln))))
            else if startsWith ln (ascii ''['') \<and> endsWith ln (ascii '']'') then None
            else if includes_char ln 0x7C then
              (case parsePhrase this of
                 (Inl e, this') \<Rightarrow> None
               | (Inr phrase, this') \<Rightarrow> Some (this', phs @ [phrase], sectionGati))
            else None)
      else None)"

fun section_steps ::
  "nat \<Rightarrow> VnaParser \<times> Phrase list \<times> jsnum option
     \<Rightarrow> (VnaParser \<times> Phrase list \<times> jsnum option) option" where
  "section_steps 0 st = Some st"
| "section_steps (Suc n) (this, phs, sectionGati) =
     (case section_step this phs sectionGati of
        None \<Rightarrow> None
      | Some st \<Rightarrow> section_steps n st)"

text \<open>
  One iteration of the \<open>while\<close> loop of \<open>parseSections\<close> that does not throw: a section
  header starts a section that \<open>parseSection\<close> returns, a blank line and a comment are
  skipped.
\<close>

definition sections_step :: "VnaParser \<Rightarrow> Section list \<Rightarrow> (VnaParser \<times> Section list) option" where
  "sections_step this secs =
     (if currentLine this < length (lines this) then
        (let ln = currentLineTrimmed this
         in if startsWith ln (ascii ''['') \<and> endsWith ln (ascii '']'') then
              (case parseSection this of
                 (Inl e, this') \<Rightarrow> None
               | (Inr section, this') \<Rightarrow> Some (this', secs @ [section]))
            else if trim ln \<noteq> [] \<and> \<not> startsWith ln (ascii ''#'') then None
            else Some (advanceLine this, secs))
      else None)"

fun sections_steps ::
  "nat \<Rightarrow> VnaParser \<times> Section list \<Rightarrow> (VnaParser \<times> Section list) option" where
  "sections_steps 0 st = Some st"
| "sections_steps (Suc n) (this, secs) =
     (case sections_step this secs of
        None \<Rightarrow> None
      | Some st \<Rightarrow> sections_steps n st)"

section \<open>Validation\<close>

text \<open>
  \<open>VnaParser.validate\<close>. The checks of the \<open>try\<close> block are functions of the parsed
  document; each returns the issues it pushes, in order.
\<close>

definition tempo_issues :: "Metadata \<Rightarrow> ValidationIssue list" where
  "tempo_issues md =
     (case tempo md of
        None \<Rightarrow> []
      | Some t \<Rightarrow>
          if num_truthy t \<and> (num_less t 20 \<or> num_greater t 300)
          then [\<lparr>severity = Warning,
                 message = ascii ''Unusual tempo: '' @ show_num t
                             @ ascii '' BPM (typical range: 20-300)'',
                 line = 1\<rparr>]
          else [])"

definition gati_issues :: "Metadata \<Rightarrow> ValidationIssue list" where
  "gati_issues md =
     (case metadata_gati md of
        None \<Rightarrow> []
      | Some g \<Rightarrow>
          if num_truthy g \<and> g \<notin> set [Num 3, Num 4, Num 5, Num 7, Num 9]
          then [\<lparr>severity = Warning,
                 message = ascii ''Unusual gati value: '' @ show_num g
                             @ ascii '' (typical values: 3, 4, 5, 7, 9)'',
                 line = 1\<rparr>]
          else [])"

definition token_count_issue :: "Phrase \<Rightarrow> ValidationIssue" where
  "token_count_issue phrase =
     \<lparr>severity = Error,
      message = ascii ''Token count mismatch: '' @ show_nat (length (swaras phrase))
                  @ ascii '' swaras vs '' @ show_nat (length (sahitya phrase))
                  @ ascii '' sahitya'',
      line = phrase_line_number phrase\<rparr>"

definition token_length_issue :: "Phrase \<Rightarrow> nat \<Rightarrow> ValidationIssue" where
  "token_length_issue phrase i =
     \<lparr>severity = Error,
      message = ascii ''Token length mismatch at position '' @ show_nat (i + 1)
                  @ ascii '': '' @ [0x22] @ swaras phrase ! i @ [0x22]
                  @ ascii '' ('' @ show_nat (length (swaras phrase ! i)) @ ascii '') vs ''
                  @ [0x22] @ sahitya phrase ! i @ [0x22]
                  @ ascii '' ('' @ show_nat (length (sahitya phrase ! i)) @ ascii '')'',
      line = phrase_line_number phrase + 1\<rparr>"

text \<open>The loop \<open>for (let i = 0; i < phrase.swaras.length; i++)\<close>, from \<open>i\<close> on.\<close>

function token_length_loop :: "Phrase \<Rightarrow> nat \<Rightarrow> ValidationIssue list" where
  "token_length_loop phrase i =
     (if i < length (swaras phrase) then
        (let swaraLen = length (swaras phrase ! i);
             sahityaLen = length (sahitya phrase ! i)
         in (if swaraLen \<noteq> sahityaLen then [token_length_issue phrase i] else [])
            @ token_length_loop phrase (i + 1))
      else [])"
  by pat_completeness auto
termination
  by (relation "measure (\<lambda>(phrase, i). length (swaras phrase) - i)") auto

declare token_length_loop.simps [simp del]

text \<open>
  The body of the loop over the phrases of a section: a count mismatch pushes one issue
  and continues with the next phrase.
\<close>

definition validate_phrase :: "Phrase \<Rightarrow> ValidationIssue list" where
  "validate_phrase phrase =
     (if length (swaras phrase) \<noteq> length (sahitya phrase) then [token_count_issue phrase]
      else token_length_loop phrase 0)"

fun validate_phrases :: "Phrase list \<Rightarrow> ValidationIssue list" where
  "validate_phrases [] = []"
| "validate_phrases (phrase # rest) = validate_phrase phrase @ validate_phrases rest"

fun validate_sections :: "Section list \<Rightarrow> ValidationIssue list" where
  "validate_sections [] = []"
| "validate_sections (section # rest) =
     validate_phrases (phrases section) @ validate_sections rest"

definition validate_document :: "VnaDocument \<Rightarrow> ValidationIssue list" where
  "validate_document document =
     tempo_issues (metadata document) @ gati_issues (metadata document)
       @ validate_sections (sections document)"

text \<open>
  \<open>parse\<close> is the first statement of the \<open>try\<close> block and the only one that throws, so
  the \<open>catch\<close> clause starts from the empty issue list.
\<close>

definition validate :: "VnaParser \<Rightarrow> jsstring \<Rightarrow> ValidationIssue list \<times> VnaParser" where
  "validate this content =
     (case parse this content of
        (Inr document, this') \<Rightarrow> (validate_document document, this')
      | (Inl e, this') \<Rightarrow>
          ([\<lparr>severity = Error, message = error_message e, line = currentLine this' + 1\<rparr>],
           this'))"

section \<open>The swara tokenizer\<close>

text \<open>
  \<open>VNAParser.parseSwaraLine(token)\<close> of lib/vna-parser-wasm.ts, the tokenizer the staff
  renderer calls for each token. \<open>variant\<close> is the one-character string \<open>token[i + 1]\<close>;
  an absent \<open>isRest\<close> or \<open>isSustain\<close> is \<open>False\<close>. The type \<open>OctaveMarker\<close> of the source has
  the five values \<open>'..'\<close>, \<open>'.'\<close>, \<open>''\<close>, \<open>'\<close> and \<open>''\<close> (two apostrophes).
\<close>

datatype OctaveMarker = LowerLower | Lower | Middle | Upper | UpperUpper

record ParsedSwara =
  swara :: jschar
  variant :: "jschar option"
  octave :: "OctaveMarker option"
  isRest :: bool
  isSustain :: bool

definition is_swara_letter :: "jschar \<Rightarrow> bool" where
  "is_swara_letter c = (c \<in> set (ascii ''SRGMPDN''))"

definition sustain_swara :: ParsedSwara where
  "sustain_swara = \<lparr>swara = 0x53, variant = None, octave = None, isRest = False, isSustain = True\<rparr>"

definition rest_swara :: ParsedSwara where
  "rest_swara = \<lparr>swara = 0x2D, variant = None, octave = None, isRest = True, isSustain = False\<rparr>"

text \<open>
  The loop index \<open>i\<close> stands on a letter and the argument is the token after it, from
  \<open>i + 1\<close> on. Each function returns what it read and the token after the characters it
  consumed. \<open>read_variant\<close> is the test for a variant digit.
\<close>

definition read_variant :: "jsstring \<Rightarrow> jschar option \<times> jsstring" where
  "read_variant r =
     (case r of
        [] \<Rightarrow> (None, [])
      | d # r' \<Rightarrow> if d \<in> set (ascii ''123'') then (Some d, r') else (None, r))"

text \<open>
  The two \<open>while\<close> loops over the octave markers. They share \<open>octaveCount\<close>: the second
  loop runs when the first set no \<open>octaveType\<close>, and counts on from the dots consumed.
\<close>

definition read_octave :: "jsstring \<Rightarrow> OctaveMarker option \<times> jsstring" where
  "read_octave r1 =
     (let octaveCount = length (takeWhile (\<lambda>x. x = 0x2E) r1);
          r2 = dropWhile (\<lambda>x. x = 0x2E) r1;
          octaveType = (if octaveCount = 1 then Some Lower
                        else if octaveCount = 2 then Some LowerLower else None)
      in if octaveType = None then
           (let octaveCount' = octaveCount + length (takeWhile (\<lambda>x. x = 0x27) r2);
                r3 = dropWhile (\<lambda>x. x = 0x27) r2
            in (if octaveCount' = 1 then Some Upper
                else if octaveCount' = 2 then Some UpperUpper else None, r3))
         else (octaveType, r2))"

lemma read_variant_length [termination_simp]:
  "read_variant r = (v, r1) \<Longrightarrow> length r1 \<le> length r"
  by (auto simp: read_variant_def split: list.splits if_splits)

lemma read_octave_length [termination_simp]:
  "read_octave r1 = (oct, r3) \<Longrightarrow> length r3 \<le> length r1"
proof -
  have "length (dropWhile (\<lambda>x. x = 0x27) (dropWhile (\<lambda>x. x = 0x2E) r1)) \<le> length r1"
    using length_dropWhile_le [of "\<lambda>x. x = 0x27" "dropWhile (\<lambda>x. x = 0x2E) r1"]
      length_dropWhile_le [of "\<lambda>x. x = 0x2E" r1]
    by linarith
  moreover assume "read_octave r1 = (oct, r3)"
  ultimately show ?thesis
    by (auto simp: read_octave_def Let_def length_dropWhile_le split: if_splits)
qed

text \<open>The main \<open>while\<close> loop, on the token from index \<open>i\<close> on.\<close>

function scan_swaras :: "jsstring \<Rightarrow> ParsedSwara list" where
  "scan_swaras [] = []"
| "scan_swaras (c # r) =
     (if c = 0x2C then sustain_swara # scan_swaras r
      else if c = 0x2D then rest_swara # scan_swaras r
      else if is_swara_letter c then
        (case read_variant r of
           (v, r1) \<Rightarrow>
             (case read_octave r1 of
                (oct, r3) \<Rightarrow>
                  \<lparr>swara = c, variant = v, octave = oct, isRest = False, isSustain = False\<rparr>
                    # scan_swaras r3))
      else scan_swaras r)"
  by pat_completeness auto
termination
  by (relation "measure length")
     (auto dest!: sym [THEN read_variant_length] sym [THEN read_octave_length])

declare scan_swaras.simps [simp del]

definition parseSwaraLine :: "jsstring \<Rightarrow> ParsedSwara list" where
  "parseSwaraLine token =
     (if token = ascii ''-'' then [rest_swara]
      else if token = ascii '','' then [sustain_swara]
      else scan_swaras token)"

subsection \<open>The note events of the specification\<close>

text \<open>
  The tagged variant of the specification: a natural note has its letter, an optional
  variant 1, 2 or 3, and an octave from -2 to 2. \<open>note_of\<close> reads a \<open>ParsedSwara\<close> as
  such a note.
\<close>

datatype ParsedNote = Natural jschar "nat option" int | Rest | Sustain

definition octave_shift :: "OctaveMarker option \<Rightarrow> int" where
  "octave_shift m =
     (case m of
        None \<Rightarrow> 0
      | Some LowerLower \<Rightarrow> - 2
      | Some Lower \<Rightarrow> - 1
      | Some Middle \<Rightarrow> 0
      | Some Upper \<Rightarrow> 1
      | Some UpperUpper \<Rightarrow> 2)"

definition note_of :: "ParsedSwara \<Rightarrow> ParsedNote" where
  "note_of s =
     (if isRest s then Rest
      else if isSustain s then Sustain
      else Natural (swara s) (map_option (\<lambda>d. nat (digit_value d)) (variant s))
             (octave_shift (octave s)))"

text \<open>
  The tokenizer as the specification words it, for comparison with the source: every
  character of the token gives its own events, whatever stands before it. A \<open>-\<close> is one
  rest, a \<open>,\<close> one sustain. A letter is one natural note; its variant is the digit 1, 2
  or 3 that follows it, if one does; after that a run of one or two dots lowers it by as
  many octaves, else a run of one or two apostrophes raises it by as many. Every other
  character gives nothing.
\<close>

definition run_length :: "jschar \<Rightarrow> jsstring \<Rightarrow> nat" where
  "run_length c s = length (takeWhile (\<lambda>x. x = c) s)"

definition variant_after :: "jsstring \<Rightarrow> nat option" where
  "variant_after s =
     (case s of
        [] \<Rightarrow> None
      | d # _ \<Rightarrow> if d = 0x31 then Some 1 else if d = 0x32 then Some 2
                 else if d = 0x33 then Some 3 else None)"

definition octave_after :: "jsstring \<Rightarrow> int" where
  "octave_after s =
     (let dots = run_length 0x2E s; apostrophes = run_length 0x27 s
      in if dots = 1 \<or> dots = 2 then - int dots
         else if apostrophes = 1 \<or> apostrophes = 2 then int apostrophes
         else 0)"

definition notes_at :: "jschar \<Rightarrow> jsstring \<Rightarrow> ParsedNote list" where
  "notes_at c following =
     (if c = 0x2D then [Rest]
      else if c = 0x2C then [Sustain]
      else if is_swara_letter c then
        [Natural c (variant_after following)
           (octave_after (if variant_after following = None then following else tl following))]
      else [])"

fun swara_tokenizer_spec :: "jsstring \<Rightarrow> ParsedNote list" where
  "swara_tokenizer_spec [] = []"
| "swara_tokenizer_spec (c # following) = notes_at c following @ swara_tokenizer_spec following"

section \<open>The line tokenizer\<close>

text \<open>
  \<open>VNAParser.parseSwaraLine(swaraLine)\<close> of lib/vna-parser.ts, the older tokenizer, which
  takes a whole swara line. It splits the line at white space and reads each token. A
  note is a match of \<open>SWARA_REGEX\<close>, \<open>/([SRGMPDN])(\d)?(\.{1,2}|'{1,2})?/g\<close>: a letter, then
  any one digit, then one or two dots or one or two apostrophes. The variant is the number
  \<open>parseInt(variant)\<close> of the digit, and an absent octave is the marker \<open>''\<close>. A rest and a
  sustain are objects with the swara \<open>S\<close>.
\<close>

record LineSwara =
  line_swara :: jschar
  line_variant :: "nat option"
  line_octave :: OctaveMarker
  duration :: nat
  line_isRest :: bool
  line_isSustain :: bool

definition line_rest :: LineSwara where
  "line_rest = \<lparr>line_swara = 0x53, line_variant = None, line_octave = Middle, duration = 1,
                 line_isRest = True, line_isSustain = False\<rparr>"

definition line_sustain :: LineSwara where
  "line_sustain = \<lparr>line_swara = 0x53, line_variant = None, line_octave = Middle, duration = 1,
                    line_isRest = False, line_isSustain = True\<rparr>"

text \<open>The groups \<open>(\d)?\<close> and \<open>(\.{1,2}|'{1,2})?\<close> of the regular expression, both greedy.\<close>

definition match_variant :: "jsstring \<Rightarrow> nat option \<times> jsstring" where
  "match_variant r =
     (case r of
        [] \<Rightarrow> (None, [])
      | d # r' \<Rightarrow> if is_digit d then (Some (nat (digit_value d)), r') else (None, r))"

definition match_octave :: "jsstring \<Rightarrow> OctaveMarker \<times> jsstring" where
  "match_octave r =
     (case r of
        [] \<Rightarrow> (Middle, [])
      | x # r1 \<Rightarrow>
          if x = 0x2E then
            (case r1 of
               [] \<Rightarrow> (Lower, [])
             | y # r2 \<Rightarrow> if y = 0x2E then (LowerLower, r2) else (Lower, r1))
          else if x = 0x27 then
            (case r1 of
               [] \<Rightarrow> (Upper, [])
             | y # r2 \<Rightarrow> if y = 0x27 then (UpperUpper, r2) else (Upper, r1))
          else (Middle, r))"

text \<open>The match that starts at the letter \<open>c\<close>, and the text after it.\<close>

definition match_swara :: "jschar \<Rightarrow> jsstring \<Rightarrow> LineSwara \<times> jsstring" where
  "match_swara c r =
     (case match_variant r of
        (v, r1) \<Rightarrow>
          (case match_octave r1 of
             (oct, r2) \<Rightarrow>
               (\<lparr>line_swara = c, line_variant = v, line_octave = oct, duration = 1,
                 line_isRest = False, line_isSustain = False\<rparr>, r2)))"

lemma match_swara_length [termination_simp]:
  "match_swara c r = (note, r') \<Longrightarrow> length r' \<le> length r"
  by (auto simp: match_swara_def match_variant_def match_octave_def
           split: list.splits if_splits prod.splits)

text \<open>
  \<open>Array.from(token.matchAll(SWARA_REGEX))\<close>, each match read as a note: the matches from
  left to right, none overlapping; a character that starts no match is passed over.
\<close>

function matchAll_swara :: "jsstring \<Rightarrow> LineSwara list" where
  "matchAll_swara [] = []"
| "matchAll_swara (c # r) =
     (if is_swara_letter c then
        (case match_swara c r of (note, r') \<Rightarrow> note # matchAll_swara r')
      else matchAll_swara r)"
  by pat_completeness auto
termination
  by (relation "measure length") (auto dest!: sym [THEN match_swara_length])

text \<open>
  The branch for a token that contains \<open>-\<close> or \<open>,\<close> walks over its characters. After a
  letter it collects \<open>notation\<close>: the letter, one digit if one follows, and every dot and
  apostrophe that follows; the note is the first match of the regular expression in
  \<open>notation\<close>. \<open>read_notation\<close> returns what is collected after the letter, and the rest of
  the token.
\<close>

definition is_octave_char :: "jschar \<Rightarrow> bool" where
  "is_octave_char x = (x = 0x2E \<or> x = 0x27)"

definition read_notation :: "jsstring \<Rightarrow> jsstring \<times> jsstring" where
  "read_notation r =
     (let digit = (case r of [] \<Rightarrow> [] | d # _ \<Rightarrow> if is_digit d then [d] else []);
          r1 = drop (length digit) r
      in (digit @ takeWhile is_octave_char r1, dropWhile is_octave_char r1))"

lemma read_notation_length [termination_simp]:
  "read_notation r = (tail, r2) \<Longrightarrow> length r2 \<le> length r"
proof -
  assume a: "read_notation r = (tail, r2)"
  obtain k where "r2 = dropWhile is_octave_char (drop k r)"
    using a by (auto simp: read_notation_def Let_def)
  then have "length r2 \<le> length (drop k r)"
    using length_dropWhile_le [of is_octave_char "drop k r"] by simp
  then show ?thesis by simp
qed

function scan_chars :: "jsstring \<Rightarrow> LineSwara list" where
  "scan_chars [] = []"
| "scan_chars (c # r) =
     (if c = 0x2D then line_rest # scan_chars r
      else if c = 0x2C then line_sustain # scan_chars r
      else if is_swara_letter c then
        (case read_notation r of
           (tail, r2) \<Rightarrow>
             (case matchAll_swara (c # tail) of
                [] \<Rightarrow> scan_chars r2
              | m # _ \<Rightarrow> m # scan_chars r2))
      else scan_chars r)"
  by pat_completeness auto
termination
  by (relation "measure length") (auto dest!: sym [THEN read_notation_length])

definition parse_line_token :: "jsstring \<Rightarrow> LineSwara list" where
  "parse_line_token token =
     (if token = ascii ''-'' then [line_rest]
      else if token = ascii '','' then [line_sustain]
      else if token = ascii ''|'' \<or> token = ascii ''||'' then []
      else if includes_char token 0x2D \<or> includes_char token 0x2C then scan_chars token
      else matchAll_swara token)"

definition parseSwaraLine_line :: "jsstring \<Rightarrow> LineSwara list" where
  "parseSwaraLine_line swaraLine = concat (map parse_line_token (split_ws swaraLine))"

section \<open>Queries of the specification\<close>

text \<open>
  Modelled from the spec: the Sahitya Tokenizer of section 4.4, which no source file
  implements. A backtick splits the token into segments; in a segment every \<open>-\<close> is one
  continuation unit and every maximal run of other characters is one unit. So
  \<open>nin`nu\<close> has two units, \<open>yun`---\<close> four and \<open>-\<close> one, as the format description
  lists them.
\<close>

record SyllableUnit =
  unit_text :: jsstring
  isContinuation :: bool

fun segment_units :: "jsstring \<Rightarrow> jsstring \<Rightarrow> SyllableUnit list" where
  "segment_units cur [] =
     (if cur = [] then [] else [\<lparr>unit_text = cur, isContinuation = False\<rparr>])"
| "segment_units cur (c # cs) =
     (if c = 0x2D then
        (if cur = [] then [] else [\<lparr>unit_text = cur, isContinuation = False\<rparr>])
          @ \<lparr>unit_text = [0x2D], isContinuation = True\<rparr> # segment_units [] cs
      else segment_units (cur @ [c]) cs)"

definition sahitya_units :: "jsstring \<Rightarrow> SyllableUnit list" where
  "sahitya_units token = concat (map (segment_units []) (split token 0x60))"

text \<open>
  Modelled from the spec: the Gati Resolver of section 4.5 on the documents of parser.ts,
  which records a gati on the phrase, on the section and in the metadata and has no
  token level. The first level that is present and truthy wins, and the document default
  is 4. The staff renderer computes its \<open>effectiveGati\<close> by the same expression,
  \<open>phrase.gati || (section gati ? section gati : documentGati)\<close> with \<open>documentGati = 4\<close>
  by default.
\<close>

definition truthy_num :: "jsnum option \<Rightarrow> bool" where
  "truthy_num v = (case v of None \<Rightarrow> False | Some x \<Rightarrow> num_truthy x)"

definition effectiveGati :: "VnaDocument \<Rightarrow> Section \<Rightarrow> Phrase \<Rightarrow> jsnum" where
  "effectiveGati document section phrase =
     (if truthy_num (phrase_gati phrase) then the (phrase_gati phrase)
      else if truthy_num (section_gati section) then the (section_gati section)
      else (case metadata_gati (metadata document) of None \<Rightarrow> Num 4 | Some g \<Rightarrow> g))"

section \<open>Inputs and auxiliary predicates\<close>

text \<open>\<open>new VnaParser()\<close>: the constructor.\<close>

definition new_VnaParser :: VnaParser where
  "new_VnaParser = \<lparr>lines = [], currentLine = 0\<rparr>"

text \<open>The scenario of the specification; the seventh character of the last line is U+014D.\<close>

definition scenario_input :: jsstring where
  "scenario_input =
     ascii ''---'' @ [0xA] @
     ascii ''title: \"Test\"'' @ [0xA] @
     ascii ''raga: \"mohanam\"'' @ [0xA] @
     ascii ''tala: \"adi\"'' @ [0xA] @
     ascii ''---'' @ [0xA] @
     ascii ''[pallavi]'' @ [0xA] @
     ascii ''G,G, R,,, | SSRR GGRR ||'' @ [0xA] @
     ascii ''ninn uk'' @ [0x14D] @ ascii ''- | ri-- ---- ||''"

text \<open>
  A first phrase whose sahitya line has its beat marker after three tokens, not two; the
  second phrase and the second section have token length mismatches.
\<close>

definition misaligned_input :: jsstring where
  "misaligned_input =
     ascii ''---'' @ [0xA] @
     ascii ''title: \"Test\"'' @ [0xA] @
     ascii ''raga: \"mohanam\"'' @ [0xA] @
     ascii ''tala: \"adi\"'' @ [0xA] @
     ascii ''---'' @ [0xA] @
     ascii ''[pallavi]'' @ [0xA] @
     ascii ''S R | G M ||'' @ [0xA] @
     ascii ''a b c | d ||'' @ [0xA] @
     ascii ''SR GM ||'' @ [0xA] @
     ascii ''a b ||'' @ [0xA] @
     ascii ''[anupallavi]'' @ [0xA] @
     ascii ''SR ||'' @ [0xA] @
     ascii ''a ||''"

text \<open>A sahitya token of two syllables with an explicit boundary marker.\<close>

definition marked_syllables_input :: jsstring where
  "marked_syllables_input =
     ascii ''---'' @ [0xA] @
     ascii ''title: \"Test\"'' @ [0xA] @
     ascii ''raga: \"mohanam\"'' @ [0xA] @
     ascii ''tala: \"adi\"'' @ [0xA] @
     ascii ''---'' @ [0xA] @
     ascii ''[pallavi]'' @ [0xA] @
     ascii ''SR ||'' @ [0xA] @
     ascii ''nin`nu ||''"

text \<open>A frontmatter that is never closed.\<close>

definition unclosed_frontmatter_input :: jsstring where
  "unclosed_frontmatter_input =
     ascii ''---'' @ [0xA] @
     ascii ''title: \"Test\"'' @ [0xA] @
     ascii ''raga: \"mohanam\"'' @ [0xA] @
     ascii ''tala: \"adi\"'' @ [0xA] @
     ascii ''[pallavi]'' @ [0xA] @
     ascii ''S R | G M ||'' @ [0xA] @
     ascii ''a b | c d ||''"

text \<open>A section with gati 3 whose second phrase has a gati line of its own.\<close>

definition line_gati_input :: jsstring where
  "line_gati_input =
     ascii ''---'' @ [0xA] @
     ascii ''title: \"Test\"'' @ [0xA] @
     ascii ''raga: \"mohanam\"'' @ [0xA] @
     ascii ''tala: \"adi\"'' @ [0xA] @
     ascii ''gati: 4'' @ [0xA] @
     ascii ''---'' @ [0xA] @
     ascii ''[pallavi]'' @ [0xA] @
     ascii ''@gati: 3'' @ [0xA] @
     ascii ''SRG MPD ||'' @ [0xA] @
     ascii ''--- --- ||'' @ [0xA] @
     ascii ''@gati: 5'' @ [0xA] @
     ascii ''SRGMP DPMGR ||'' @ [0xA] @
     ascii ''----- ----- ||''"

text \<open>A tempo that is not a number.\<close>

definition nonnumeric_tempo_input :: jsstring where
  "nonnumeric_tempo_input =
     ascii ''---'' @ [0xA] @
     ascii ''title: \"Test\"'' @ [0xA] @
     ascii ''raga: \"mohanam\"'' @ [0xA] @
     ascii ''tala: \"adi\"'' @ [0xA] @
     ascii ''tempo: fast'' @ [0xA] @
     ascii ''---'' @ [0xA] @
     ascii ''[pallavi]'' @ [0xA] @
     ascii ''SR ||'' @ [0xA] @
     ascii ''ab ||''"

text \<open>
  Two sections; the third phrase of the second one has its beat marker after two swara
  tokens and after three sahitya tokens.
\<close>

definition late_misaligned_input :: jsstring where
  "late_misaligned_input =
     ascii ''---'' @ [0xA] @
     ascii ''title: \"Test\"'' @ [0xA] @
     ascii ''raga: \"mohanam\"'' @ [0xA] @
     ascii ''tala: \"adi\"'' @ [0xA] @
     ascii ''---'' @ [0xA] @
     [0xA] @
     ascii ''[pallavi]'' @ [0xA] @
     ascii ''SR ||'' @ [0xA] @
     ascii ''ab ||'' @ [0xA] @
     ascii ''[anupallavi]'' @ [0xA] @
     ascii ''# second section'' @ [0xA] @
     ascii ''@gati: 3'' @ [0xA] @
     ascii ''S R | G ||'' @ [0xA] @
     ascii ''a b | c ||'' @ [0xA] @
     ascii ''S R | G M ||'' @ [0xA] @
     ascii ''a b c | d ||'' @ [0xA] @
     ascii ''SRG ||'' @ [0xA] @
     ascii ''a ||''"

text \<open>A gati that starts with an integer, and a tempo that has none.\<close>

definition truncated_gati_input :: jsstring where
  "truncated_gati_input =
     ascii ''---'' @ [0xA] @
     ascii ''title: \"Test\"'' @ [0xA] @
     ascii ''raga: \"mohanam\"'' @ [0xA] @
     ascii ''tala: \"adi\"'' @ [0xA] @
     ascii ''gati: 12abc'' @ [0xA] @
     ascii ''tempo: fast'' @ [0xA] @
     ascii ''---''"

text \<open>A frontmatter with a tempo and without the required fields.\<close>

definition tempo_only_input :: jsstring where
  "tempo_only_input = ascii ''---'' @ [0xA] @ ascii ''tempo: fast'' @ [0xA] @ ascii ''---''"

text \<open>
  The frontmatter of a text: the lines that \<open>parseMetadata\<close> collects in \<open>yamlLines\<close>. A
  numeric line is one that sets \<open>tempo\<close> or \<open>gati\<close>; \<open>other_fields\<close> is what the lines that
  are not numeric assign, and the frontmatter is complete when the text starts with the
  delimiter and these give a title, a raga and a tala.
\<close>

definition is_numeric_line :: "jsstring \<Rightarrow> bool" where
  "is_numeric_line ln =
     (case match_yaml ln of
        None \<Rightarrow> False
      | Some (key, val) \<Rightarrow> key = ascii ''tempo'' \<or> key = ascii ''gati'')"

definition frontmatter_lines :: "jsstring \<Rightarrow> jsstring list" where
  "frontmatter_lines content =
     fst (read_yaml (advanceLine \<lparr>lines = split content 0xA, currentLine = 0\<rparr>) [])"

definition other_fields :: "jsstring \<Rightarrow> (jsstring \<rightharpoonup> jsstring)" where
  "other_fields content =
     text_fields (foldl assign_yaml empty_metadata
                    (filter (\<lambda>l. \<not> is_numeric_line l) (frontmatter_lines content)))"

definition frontmatter_complete :: "jsstring \<Rightarrow> bool" where
  "frontmatter_complete content =
     (currentLineStartsWith \<lparr>lines = split content 0xA, currentLine = 0\<rparr> (ascii ''---'')
      \<and> \<not> falsy_text (other_fields content (ascii ''title''))
      \<and> \<not> falsy_text (other_fields content (ascii ''raga''))
      \<and> \<not> falsy_text (other_fields content (ascii ''tala'')))"

text \<open>What the notation-line splitter promises of a token.\<close>

definition good_token :: "jsstring \<Rightarrow> bool" where
  "good_token t = (t \<noteq> [] \<and> (\<forall>c\<in>set t. \<not> is_ws c \<and> c \<noteq> 0x7C))"

text \<open>The invariant of \<open>beats.forEach\<close>.\<close>

definition beat_inv :: "jsstring list \<times> nat list \<times> nat \<Rightarrow> bool" where
  "beat_inv st =
     (case st of
        (tokens, beatPositions, currentPos) \<Rightarrow>
          currentPos = length tokens \<and> (\<forall>t\<in>set tokens. good_token t) \<and> sorted beatPositions
          \<and> (\<forall>b\<in>set beatPositions. 1 \<le> b \<and> b \<le> currentPos))"

text \<open>The characters that give no note event.\<close>

definition inert :: "jschar \<Rightarrow> bool" where
  "inert x = (x \<noteq> 0x2D \<and> x \<noteq> 0x2C \<and> \<not> is_swara_letter x)"

text \<open>
  The range of a note: a natural note has a letter of S R G M P D N, no variant or the
  variant 1, 2 or 3, and an octave from -2 to 2.
\<close>

definition wellformed_note :: "ParsedNote \<Rightarrow> bool" where
  "wellformed_note n =
     (case n of
        Natural l v oct \<Rightarrow>
          is_swara_letter l \<and> v \<in> {None, Some 1, Some 2, Some 3} \<and> - 2 \<le> oct \<and> oct \<le> 2
      | _ \<Rightarrow> True)"

text \<open>
  The state in which the loop of \<open>parseSection\<close> calls \<open>parsePhrase\<close>: the current line
  exists, is not blank, is no comment, no \<open>@gati:\<close> line and no section header, and
  contains \<open>|\<close>.
\<close>

definition starts_phrase :: "VnaParser \<Rightarrow> bool" where
  "starts_phrase this =
     (let ln = currentLineTrimmed this
      in currentLine this < length (lines this) \<and> ln \<noteq> []
         \<and> \<not> startsWith ln (ascii ''#'') \<and> \<not> startsWith ln (ascii ''@gati:'')
         \<and> \<not> (startsWith ln (ascii ''['') \<and> endsWith ln (ascii '']''))
         \<and> includes_char ln 0x7C)"

text \<open>The current line and the next one have different beat positions.\<close>

definition beats_misaligned :: "VnaParser \<Rightarrow> bool" where
  "beats_misaligned this =
     (snd (parseNotationLine (currentLineTrimmed this))
        \<noteq> snd (parseNotationLine (currentLineTrimmed (advanceLine this))))"

text \<open>The effective gati of every phrase of a document, section by section.\<close>

definition effective_gatis :: "VnaDocument \<Rightarrow> jsnum list list" where
  "effective_gatis document =
     map (\<lambda>section. map (effectiveGati document section) (phrases section))
       (sections document)"

section \<open>Evaluation\<close>

lemmas string_defs =
  ascii_def is_ws_def is_word_char_def trim_def startsWith_def endsWith_def
  includes_char_def split_def split_ws_def is_digit_def digit_value_def decimal_value_def
  parseInt_def number_of_def

lemmas parser_defs =
  currentLineTrimmed_def currentLineStartsWith_def advanceLine_def match_yaml_def
  assign_yaml_def empty_metadata_def falsy_text_def read_yaml.simps parseMetadata_def
  parsePhrase_def parseNotationLine_def parseSection_loop.simps parseSection_def
  parseSections_loop.simps parseSections_def parse_def new_VnaParser_def

lemmas line_defs =
  parseSwaraLine_line_def parse_line_token_def match_swara_def match_variant_def
  match_octave_def is_octave_char_def read_notation_def line_rest_def line_sustain_def
  is_swara_letter_def

lemmas validate_defs =
  validate_def validate_document_def tempo_issues_def gati_issues_def validate_phrase_def
  token_length_loop.simps token_length_issue_def token_count_issue_def num_truthy_def
  num_less_def num_greater_def

section \<open>The notation-line splitter: tokens and beat positions\<close>

lemma set_trim: "set (trim s) \<subseteq> set s"
  by (auto simp: trim_def dest!: set_dropWhileD)

lemma split_from_no_sep:
  "f \<in> set (split_from sep cur s) \<Longrightarrow> sep \<notin> set cur \<Longrightarrow> sep \<notin> set f"
  by (induction sep cur s rule: split_from.induct) (auto split: if_splits)

lemma split_ws_from_chars:
  "f \<in> set (split_ws_from cur s) \<Longrightarrow> set f \<subseteq> set cur \<union> set s"
proof (induction cur s rule: split_ws_from.induct)
  case (1 cur)
  then show ?case by simp
next
  case (2 cur c cs)
  show ?case
  proof (cases "is_ws c")
    case True
    with 2 show ?thesis by (auto dest: set_dropWhileD)
  next
    case False
    with 2 show ?thesis by auto
  qed
qed

lemma split_ws_from_no_ws:
  "f \<in> set (split_ws_from cur s) \<Longrightarrow> \<forall>c\<in>set cur. \<not> is_ws c \<Longrightarrow> \<forall>c\<in>set f. \<not> is_ws c"
  by (induction cur s rule: split_ws_from.induct) (auto split: if_splits)

lemma beat_tokens_good:
  assumes "0x7C \<notin> set beat" and "t \<in> set (filter (\<lambda>t. t \<noteq> []) (split_ws (trim beat)))"
  shows "good_token t"
proof -
  from assms(2) have ne: "t \<noteq> []" and mem: "t \<in> set (split_ws_from [] (trim beat))"
    by (simp_all add: split_ws_def)
  from split_ws_from_chars [OF mem] set_trim [of beat] assms(1) have "0x7C \<notin> set t"
    by auto
  moreover from split_ws_from_no_ws [OF mem] have "\<forall>c\<in>set t. \<not> is_ws c" by simp
  ultimately show ?thesis using ne by (auto simp: good_token_def)
qed

lemma forEach_beat_inv:
  "\<forall>beat\<in>set beats. 0x7C \<notin> set beat \<Longrightarrow> beat_inv st \<Longrightarrow> beat_inv (forEach_beat beats st)"
proof (induction beats st rule: forEach_beat.induct)
  case (1 st)
  then show ?case by simp
next
  case (2 beat rest tokens beatPositions currentPos)
  let ?bt = "filter (\<lambda>t. t \<noteq> []) (split_ws (trim beat))"
  let ?pos = "currentPos + length ?bt"
  let ?bps = "if rest \<noteq> [] \<and> ?pos > 0 then beatPositions @ [?pos] else beatPositions"
  from "2.prems"(1) have nobar: "0x7C \<notin> set beat" by simp
  have good: "\<forall>t\<in>set ?bt. good_token t"
    using beat_tokens_good [OF nobar] by blast
  from "2.prems"(2) have inv: "currentPos = length tokens" "\<forall>t\<in>set tokens. good_token t"
    "sorted beatPositions" "\<forall>b\<in>set beatPositions. 1 \<le> b \<and> b \<le> currentPos"
    by (auto simp: beat_inv_def)
  have "beat_inv (tokens @ ?bt, ?bps, ?pos)"
    using inv good by (auto simp: beat_inv_def sorted_append Suc_le_eq)
  moreover from "2.prems"(1) have "\<forall>beat\<in>set rest. 0x7C \<notin> set beat" by simp
  ultimately have "beat_inv (forEach_beat rest (tokens @ ?bt, ?bps, ?pos))"
    using "2.IH" [OF refl refl refl] by blast
  then show ?case by (simp add: Let_def)
qed

text \<open>
  C10. For every input line, the notation-line splitter returns tokens that are non-empty
  and contain neither white space nor the character \<open>|\<close>, and beat positions that are
  non-decreasing, each at least 1 and at most the number of tokens returned.
\<close>

theorem parseNotationLine_wellformed:
  "parseNotationLine ln = (tokens, beatPositions) \<Longrightarrow>
     (\<forall>t\<in>set tokens. t \<noteq> [] \<and> (\<forall>c\<in>set t. \<not> is_ws c \<and> c \<noteq> 0x7C))
     \<and> sorted beatPositions
     \<and> (\<forall>b\<in>set beatPositions. 1 \<le> b \<and> b \<le> length tokens)"
proof -
  assume a: "parseNotationLine ln = (tokens, beatPositions)"
  define cleanLine where
    "cleanLine = (if endsWith ln (ascii ''||'') then trim (take (length ln - 2) ln) else trim ln)"
  have nobar: "\<forall>beat\<in>set (split cleanLine 0x7C). 0x7C \<notin> set beat"
    using split_from_no_sep [of _ "0x7C" "[]" cleanLine] by (auto simp: split_def)
  have "beat_inv ([], [], 0)" by (simp add: beat_inv_def)
  from forEach_beat_inv [OF nobar this]
  have inv: "beat_inv (forEach_beat (split cleanLine 0x7C) ([], [], 0))" .
  obtain p where "forEach_beat (split cleanLine 0x7C) ([], [], 0) = (tokens, beatPositions, p)"
    using a by (auto simp: parseNotationLine_def cleanLine_def Let_def split: prod.splits)
  with inv show ?thesis by (auto simp: beat_inv_def good_token_def)
qed

theorem parseNotationLine_wellformed_witness:
  "parseNotationLine (ascii '' S R  | G M |  | P | '')
     = ([ascii ''S'', ascii ''R'', ascii ''G'', ascii ''M'', ascii ''P''], [2, 4, 4, 5])
   \<and> list_all (\<lambda>t. t \<noteq> [] \<and> list_all (\<lambda>c. \<not> is_ws c \<and> c \<noteq> 0x7C) t)
         [ascii ''S'', ascii ''R'', ascii ''G'', ascii ''M'', ascii ''P'']
   \<and> sorted [2, 4, 4, 5 :: nat]
   \<and> list_all (\<lambda>b. 1 \<le> b \<and> b \<le> 5) [2, 4, 4, 5 :: nat]"
proof -
  have e: "parseNotationLine (ascii '' S R  | G M |  | P | '')
     = ([ascii ''S'', ascii ''R'', ascii ''G'', ascii ''M'', ascii ''P''], [2, 4, 4, 5])"
    by (simp add: parseNotationLine_def string_defs)
  from parseNotationLine_wellformed [OF e] e show ?thesis
    by (simp add: list_all_iff)
qed

section \<open>parse is a function of its input\<close>

lemma reset_instance:
  "this\<lparr>lines := ls, currentLine := c\<rparr> = \<lparr>lines = ls, currentLine = c\<rparr>"
  by (cases this) simp

text \<open>
  C9. Two calls of \<open>parse\<close> on the same text give the same result, whatever state earlier
  calls left in the parser instance: the document or the error, and the state the call
  leaves, depend on the text alone.
\<close>

theorem parse_independent_of_instance:
  "parse this content = parse this' content"
  by (simp add: parse_def reset_instance)

lemma parse_fresh: "parse this content = parse new_VnaParser content"
  by (simp add: parse_def reset_instance)

lemma validate_fresh: "validate this content = validate new_VnaParser content"
  by (simp add: validate_def parse_fresh [of this])

section \<open>The scenario of the specification\<close>

lemma scenario_parse:
  "parse new_VnaParser scenario_input =
     (Inr \<lparr>metadata =
             \<lparr>text_fields = [ascii ''title'' \<mapsto> ascii ''Test'',
                              ascii ''raga'' \<mapsto> ascii ''mohanam'',
                              ascii ''tala'' \<mapsto> ascii ''adi''],
              tempo = None, metadata_gati = None\<rparr>,
           sections =
             [\<lparr>name = ascii ''pallavi'',
               phrases =
                 [\<lparr>swaras = [ascii ''G,G,'', ascii ''R,,,'', ascii ''SSRR'', ascii ''GGRR''],
                   sahitya = [ascii ''ninn'', ascii ''uk'' @ [0x14D] @ ascii ''-'',
                              ascii ''ri--'', ascii ''----''],
                   phrase_analysis = None, phrase_line_number = 7,
                   beat_positions = [2], phrase_gati = None\<rparr>],
               section_line_number = 6, section_gati = None\<rparr>]\<rparr>,
      \<lparr>lines = split scenario_input 0xA, currentLine = 8\<rparr>)"
  by (simp add: scenario_input_def string_defs parser_defs Let_def)

lemma scenario_validate: "fst (validate new_VnaParser scenario_input) = []"
  by (simp add: validate_defs scenario_parse ascii_def)

text \<open>
  C5. On the scenario input (frontmatter with title Test, raga mohanam, tala adi, the
  section header \<open>[pallavi]\<close>, one swara line and one sahitya line), \<open>parse\<close> succeeds on
  any parser instance: the title is Test, there is exactly one section, named pallavi,
  with exactly one phrase, whose swara tokens are G,G, R,,, SSRR GGRR, whose sahitya
  tokens are the four of the sahitya line, and whose beat positions are [2]; \<open>validate\<close>
  returns no diagnostic at all, so none of severity error.
\<close>

theorem scenario_parses:
  "\<exists>d t. parse this scenario_input = (Inr d, t)
     \<and> text_fields (metadata d) (ascii ''title'') = Some (ascii ''Test'')
     \<and> map name (sections d) = [ascii ''pallavi'']
     \<and> (\<exists>ph. map phrases (sections d) = [[ph]]
          \<and> swaras ph = [ascii ''G,G,'', ascii ''R,,,'', ascii ''SSRR'', ascii ''GGRR'']
          \<and> sahitya ph = [ascii ''ninn'', ascii ''uk'' @ [0x14D] @ ascii ''-'',
                          ascii ''ri--'', ascii ''----'']
          \<and> beat_positions ph = [2])
     \<and> fst (validate this scenario_input) = []"
  by (simp add: parse_fresh [of this] validate_fresh [of this] scenario_parse
        scenario_validate ascii_def)

section \<open>Beat markers that do not align\<close>

lemma parsePhrase_misaligned:
  assumes "\<not> startsWith (currentLineTrimmed this) (ascii ''@gati:'')" and "beats_misaligned this"
  shows "parsePhrase this
           = (Inl (BeatMisaligned (currentLine this + 1)), advanceLine (advanceLine this))"
  using assms by (auto simp: parsePhrase_def beats_misaligned_def Let_def split: prod.splits)

lemma parseSection_loop_misaligned:
  assumes "starts_phrase this" and "beats_misaligned this"
  shows "parseSection_loop this phs g
           = (Inl (BeatMisaligned (currentLine this + 1)), advanceLine (advanceLine this))"
proof -
  from assms(1) have ng: "\<not> startsWith (currentLineTrimmed this) (ascii ''@gati:'')"
    by (simp add: starts_phrase_def Let_def)
  from assms(1) show ?thesis
    by (subst parseSection_loop.simps)
       (simp add: starts_phrase_def Let_def parsePhrase_misaligned [OF ng assms(2)])
qed

lemma misaligned_parse:
  "parse new_VnaParser misaligned_input =
     (Inl (BeatMisaligned 7), \<lparr>lines = split misaligned_input 0xA, currentLine = 8\<rparr>)"
  by (simp add: misaligned_input_def string_defs parser_defs Let_def)

text \<open>
  C1, as the claim states it, fails: on \<open>misaligned_input\<close> the first phrase has its beat
  marker after two swara tokens and after three sahitya tokens. \<open>parse\<close> throws, so no
  document is produced, and \<open>validate\<close> returns one diagnostic only: the length mismatches
  of the second phrase and of the second section are never looked at. The diagnostic's
  message names line 7, where the phrase starts; its \<open>line\<close> field is 9.
\<close>

theorem beat_misalignment_counterexample:
  "fst (parse new_VnaParser misaligned_input) = Inl (BeatMisaligned 7)
   \<and> fst (validate new_VnaParser misaligned_input)
       = [\<lparr>severity = Error, message = ascii ''Beat markers misaligned at line 7'',
           line = 9\<rparr>]"
  by (simp add: validate_def misaligned_parse show_nat.simps digit_char_def ascii_def)

lemma section_step_loop:
  "section_step this phs g = Some (this', phs', g') \<Longrightarrow>
     parseSection_loop this phs g = parseSection_loop this' phs' g'"
  by (subst parseSection_loop.simps)
     (auto simp: section_step_def Let_def split: if_splits prod.splits sum.splits)

lemma section_steps_loop:
  "section_steps n (this, phs, g) = Some (this', phs', g') \<Longrightarrow>
     parseSection_loop this phs g = parseSection_loop this' phs' g'"
proof (induction n arbitrary: this phs g)
  case 0
  then show ?case by simp
next
  case (Suc n)
  from Suc.prems obtain a b c where
    st: "section_step this phs g = Some (a, b, c)"
    and rest: "section_steps n (a, b, c) = Some (this', phs', g')"
    by (auto split: option.splits)
  from section_step_loop [OF st] Suc.IH [OF rest] show ?case by simp
qed

lemma sections_step_loop:
  "sections_step this secs = Some (this', secs') \<Longrightarrow>
     parseSections_loop this secs = parseSections_loop this' secs'"
  by (subst parseSections_loop.simps)
     (auto simp: sections_step_def Let_def split: if_splits prod.splits sum.splits)

lemma sections_steps_loop:
  "sections_steps n (this, secs) = Some (this', secs') \<Longrightarrow>
     parseSections_loop this secs = parseSections_loop this' secs'"
proof (induction n arbitrary: this secs)
  case 0
  then show ?case by simp
next
  case (Suc n)
  from Suc.prems obtain a b where
    st: "sections_step this secs = Some (a, b)"
    and rest: "sections_steps n (a, b) = Some (this', secs')"
    by (auto split: option.splits)
  from sections_step_loop [OF st] Suc.IH [OF rest] show ?case by simp
qed

lemma parseSection_propagates:
  "parseSection_loop (advanceLine s) [] None = (Inl e, t) \<Longrightarrow> parseSection s = (Inl e, t)"
  by (simp add: parseSection_def Let_def)

lemma parseSections_loop_propagates:
  assumes "currentLine s < length (lines s)"
    and "startsWith (currentLineTrimmed s) (ascii ''['')
         \<and> endsWith (currentLineTrimmed s) (ascii '']'')"
    and "parseSection s = (Inl e, t)"
  shows "parseSections_loop s secs = (Inl e, t)"
  using assms by (subst parseSections_loop.simps) (simp add: Let_def)

lemma parse_propagates:
  assumes "parseMetadata \<lparr>lines = split content 0xA, currentLine = 0\<rparr> = (Inr md, s1)"
    and "parseSections s1 = (Inl e, t)"
  shows "parse p content = (Inl e, t)"
  using assms by (simp add: parse_def reset_instance)

lemma section_steps_numeral:
  "section_steps (numeral k) (this, phs, g) =
     (case section_step this phs g of
        None \<Rightarrow> None
      | Some st \<Rightarrow> section_steps (pred_numeral k) st)"
  by (simp add: numeral_eq_Suc)

lemma sections_steps_numeral:
  "sections_steps (numeral k) (this, secs) =
     (case sections_step this secs of
        None \<Rightarrow> None
      | Some st \<Rightarrow> sections_steps (pred_numeral k) st)"
  by (simp add: numeral_eq_Suc)

lemmas step_defs =
  section_step_def sections_step_def section_steps_numeral sections_steps_numeral

text \<open>
  C1, amended. Take any text whose frontmatter parses, and in which the parser, after
  any number of iterations of the loop of \<open>parseSections\<close>, stands at a section header and
  then, after any number of iterations of the loop of \<open>parseSection\<close>, at a phrase whose
  swara line and sahitya line have different beat positions, as \<open>parseNotationLine\<close>
  records them (a marker before the first token and the closing \<open>||\<close> record none). Then
  \<open>parse\<close> throws \<open>Beat markers misaligned at line n\<close>, with \<open>n\<close> the line of the phrase,
  counted from 1: no document is produced, and the sections and phrases parsed before
  are dropped. \<open>validate\<close> returns exactly one diagnostic, of severity error, with that
  message; its \<open>line\<close> is \<open>n + 2\<close>, the line after the two lines of the phrase.
\<close>

theorem beat_misalignment_aborts:
  assumes "parseMetadata \<lparr>lines = split content 0xA, currentLine = 0\<rparr> = (Inr md, s1)"
    and "sections_steps m (s1, []) = Some (s, secs)"
    and "currentLine s < length (lines s)"
    and "startsWith (currentLineTrimmed s) (ascii ''['')
         \<and> endsWith (currentLineTrimmed s) (ascii '']'')"
    and "section_steps n (advanceLine s, [], None) = Some (this, phs, g)"
    and "starts_phrase this"
    and "beats_misaligned this"
  shows "parse p content
           = (Inl (BeatMisaligned (currentLine this + 1)), advanceLine (advanceLine this))
         \<and> validate p content
             = ([\<lparr>severity = Error,
                  message = ascii ''Beat markers misaligned at line ''
                              @ show_nat (currentLine this + 1),
                  line = currentLine this + 3\<rparr>],
                advanceLine (advanceLine this))"
proof -
  let ?e = "BeatMisaligned (currentLine this + 1)"
  let ?t = "advanceLine (advanceLine this)"
  have "parseSection_loop (advanceLine s) [] None = (Inl ?e, ?t)"
    using section_steps_loop [OF assms(5)] parseSection_loop_misaligned [OF assms(6,7)]
    by simp
  then have "parseSection s = (Inl ?e, ?t)" by (rule parseSection_propagates)
  then have "parseSections_loop s secs = (Inl ?e, ?t)"
    using parseSections_loop_propagates [OF assms(3,4)] by simp
  then have "parseSections s1 = (Inl ?e, ?t)"
    using sections_steps_loop [OF assms(2)] by (simp add: parseSections_def)
  then have "parse p content = (Inl ?e, ?t)"
    using parse_propagates [OF assms(1)] by simp
  then show ?thesis by (simp add: validate_def advanceLine_def)
qed

theorem beat_misalignment_aborts_witness:
  "parseMetadata \<lparr>lines = split late_misaligned_input 0xA, currentLine = 0\<rparr>
     = (Inr \<lparr>text_fields = [ascii ''title'' \<mapsto> ascii ''Test'',
                             ascii ''raga'' \<mapsto> ascii ''mohanam'',
                             ascii ''tala'' \<mapsto> ascii ''adi''],
             tempo = None, metadata_gati = None\<rparr>,
        \<lparr>lines = split late_misaligned_input 0xA, currentLine = 5\<rparr>)
   \<and> sections_steps 2 (\<lparr>lines = split late_misaligned_input 0xA, currentLine = 5\<rparr>, [])
       = Some (\<lparr>lines = split late_misaligned_input 0xA, currentLine = 9\<rparr>,
               [\<lparr>name = ascii ''pallavi'',
                 phrases =
                   [\<lparr>swaras = [ascii ''SR''], sahitya = [ascii ''ab''],
                     phrase_analysis = None, phrase_line_number = 8,
                     beat_positions = [], phrase_gati = None\<rparr>],
                 section_line_number = 7, section_gati = None\<rparr>])
   \<and> currentLineTrimmed \<lparr>lines = split late_misaligned_input 0xA, currentLine = 9\<rparr>
       = ascii ''[anupallavi]''
   \<and> section_steps 3 (\<lparr>lines = split late_misaligned_input 0xA, currentLine = 10\<rparr>, [], None)
       = Some (\<lparr>lines = split late_misaligned_input 0xA, currentLine = 14\<rparr>,
               [\<lparr>swaras = [ascii ''S'', ascii ''R'', ascii ''G''],
                 sahitya = [ascii ''a'', ascii ''b'', ascii ''c''],
                 phrase_analysis = None, phrase_line_number = 13,
                 beat_positions = [2], phrase_gati = None\<rparr>],
               Some (Num 3))
   \<and> starts_phrase \<lparr>lines = split late_misaligned_input 0xA, currentLine = 14\<rparr>
   \<and> beats_misaligned \<lparr>lines = split late_misaligned_input 0xA, currentLine = 14\<rparr>
   \<and> parse new_VnaParser late_misaligned_input
       = (Inl (BeatMisaligned 15),
          \<lparr>lines = split late_misaligned_input 0xA, currentLine = 16\<rparr>)
   \<and> validate new_VnaParser late_misaligned_input
       = ([\<lparr>severity = Error, message = ascii ''Beat markers misaligned at line 15'',
            line = 17\<rparr>],
          \<lparr>lines = split late_misaligned_input 0xA, currentLine = 16\<rparr>)"
proof -
  let ?L = "split late_misaligned_input 0xA"
  have pm: "parseMetadata \<lparr>lines = ?L, currentLine = 0\<rparr>
     = (Inr \<lparr>text_fields = [ascii ''title'' \<mapsto> ascii ''Test'',
                             ascii ''raga'' \<mapsto> ascii ''mohanam'',
                             ascii ''tala'' \<mapsto> ascii ''adi''],
             tempo = None, metadata_gati = None\<rparr>,
        \<lparr>lines = ?L, currentLine = 5\<rparr>)"
    by (simp add: late_misaligned_input_def string_defs parser_defs Let_def)
  have ss: "sections_steps 2 (\<lparr>lines = ?L, currentLine = 5\<rparr>, [])
       = Some (\<lparr>lines = ?L, currentLine = 9\<rparr>,
               [\<lparr>name = ascii ''pallavi'',
                 phrases =
                   [\<lparr>swaras = [ascii ''SR''], sahitya = [ascii ''ab''],
                     phrase_analysis = None, phrase_line_number = 8,
                     beat_positions = [], phrase_gati = None\<rparr>],
                 section_line_number = 7, section_gati = None\<rparr>])"
    by (simp add: late_misaligned_input_def string_defs parser_defs step_defs Let_def)
  have ln: "currentLineTrimmed \<lparr>lines = ?L, currentLine = 9\<rparr> = ascii ''[anupallavi]''"
    by (simp add: late_misaligned_input_def string_defs parser_defs Let_def)
  have ir: "currentLine \<lparr>lines = ?L, currentLine = 9\<rparr>
              < length (lines \<lparr>lines = ?L, currentLine = 9\<rparr>)"
    by (simp add: late_misaligned_input_def string_defs)
  have hd: "startsWith (currentLineTrimmed \<lparr>lines = ?L, currentLine = 9\<rparr>) (ascii ''['')
            \<and> endsWith (currentLineTrimmed \<lparr>lines = ?L, currentLine = 9\<rparr>) (ascii '']'')"
    unfolding ln by (simp add: string_defs)
  have st: "section_steps 3 (advanceLine \<lparr>lines = ?L, currentLine = 9\<rparr>, [], None)
       = Some (\<lparr>lines = ?L, currentLine = 14\<rparr>,
               [\<lparr>swaras = [ascii ''S'', ascii ''R'', ascii ''G''],
                 sahitya = [ascii ''a'', ascii ''b'', ascii ''c''],
                 phrase_analysis = None, phrase_line_number = 13,
                 beat_positions = [2], phrase_gati = None\<rparr>],
               Some (Num 3))"
    by (simp add: late_misaligned_input_def string_defs parser_defs step_defs Let_def)
  have sp: "starts_phrase \<lparr>lines = ?L, currentLine = 14\<rparr>"
    by (simp add: starts_phrase_def late_misaligned_input_def string_defs parser_defs Let_def)
  have bm: "beats_misaligned \<lparr>lines = ?L, currentLine = 14\<rparr>"
    by (simp add: beats_misaligned_def late_misaligned_input_def string_defs parser_defs
          Let_def)
  from beat_misalignment_aborts [OF pm ss ir hd st sp bm, of new_VnaParser] pm ss ln st sp bm
  show ?thesis by (simp add: advanceLine_def show_nat.simps digit_char_def ascii_def)
qed

section \<open>Token lengths\<close>

lemma token_length_loop_eq:
  "token_length_loop phrase i =
     map (token_length_issue phrase)
       (filter (\<lambda>j. length (swaras phrase ! j) \<noteq> length (sahitya phrase ! j))
          [i..<length (swaras phrase)])"
proof (induction phrase i rule: token_length_loop.induct)
  case (1 phrase i)
  show ?case
  proof (cases "i < length (swaras phrase)")
    case True
    with "1.IH" [OF True refl refl] show ?thesis
      by (subst token_length_loop.simps) (simp add: upt_conv_Cons Let_def)
  next
    case False
    then show ?thesis by (subst token_length_loop.simps) simp
  qed
qed

lemma validate_phrases_concat: "validate_phrases ps = concat (map validate_phrase ps)"
  by (induction ps) simp_all

lemma validate_sections_concat:
  "validate_sections ss = concat (map validate_phrase (concat (map phrases ss)))"
  by (induction ss) (simp_all add: validate_phrases_concat)

lemma marked_parse:
  "parse new_VnaParser marked_syllables_input =
     (Inr \<lparr>metadata =
             \<lparr>text_fields = [ascii ''title'' \<mapsto> ascii ''Test'',
                              ascii ''raga'' \<mapsto> ascii ''mohanam'',
                              ascii ''tala'' \<mapsto> ascii ''adi''],
              tempo = None, metadata_gati = None\<rparr>,
           sections =
             [\<lparr>name = ascii ''pallavi'',
               phrases =
                 [\<lparr>swaras = [ascii ''SR''],
                   sahitya = [ascii ''nin'' @ [0x60] @ ascii ''nu''],
                   phrase_analysis = None, phrase_line_number = 7,
                   beat_positions = [], phrase_gati = None\<rparr>],
               section_line_number = 6, section_gati = None\<rparr>]\<rparr>,
      \<lparr>lines = split marked_syllables_input 0xA, currentLine = 8\<rparr>)"
  by (simp add: marked_syllables_input_def string_defs parser_defs Let_def)

text \<open>
  C2, as the claim states it, fails: on \<open>marked_syllables_input\<close> the swara token SR has
  two characters and the sahitya token, two syllables with a boundary marker between
  them, has two syllable units, yet \<open>validate\<close> reports a length mismatch: it compares 2
  with 6, the number of characters of the sahitya token.
\<close>

theorem token_length_counterexample:
  "map_sum id (map (map swaras \<circ> phrases) \<circ> sections)
       (fst (parse new_VnaParser marked_syllables_input)) = Inr [[[ascii ''SR'']]]
   \<and> map_sum id (map (map sahitya \<circ> phrases) \<circ> sections)
       (fst (parse new_VnaParser marked_syllables_input))
         = Inr [[[ascii ''nin'' @ [0x60] @ ascii ''nu'']]]
   \<and> length (ascii ''SR'') = 2
   \<and> length (sahitya_units (ascii ''nin'' @ [0x60] @ ascii ''nu'')) = 2
   \<and> fst (validate new_VnaParser marked_syllables_input)
       = [\<lparr>severity = Error,
           message = ascii ''Token length mismatch at position 1: \"SR\" (2) vs \"nin''
                       @ [0x60] @ ascii ''nu\" (6)'',
           line = 8\<rparr>]"
  by (simp add: validate_defs marked_parse show_nat.simps digit_char_def ascii_def
        sahitya_units_def split_def)

text \<open>
  C2, amended. For every phrase whose swara and sahitya token counts are equal,
  \<open>validate\<close> compares, at every index (a token that is a pure rest or sustain marker
  included), the number of code units of the swara token with the number of code units of
  the sahitya token, and reports an error naming the position and both tokens exactly at
  the indices where the two differ, in order; a phrase whose token counts differ gets the
  count error alone. The diagnostics of a document are those of its tempo, of its gati
  and of its phrases in order.
\<close>

theorem validate_compares_raw_lengths:
  "validate_phrase phrase =
     (if length (swaras phrase) \<noteq> length (sahitya phrase) then [token_count_issue phrase]
      else map (token_length_issue phrase)
             (filter (\<lambda>i. length (swaras phrase ! i) \<noteq> length (sahitya phrase ! i))
                [0..<length (swaras phrase)]))
   \<and> validate_document document =
       tempo_issues (metadata document) @ gati_issues (metadata document)
         @ concat (map validate_phrase (concat (map phrases (sections document))))"
  by (simp add: validate_phrase_def token_length_loop_eq validate_document_def
        validate_sections_concat)

theorem validate_compares_raw_lengths_witness:
  "validate_phrase
     \<lparr>swaras = [ascii ''SR'', ascii ''-''], sahitya = [ascii ''ab'', ascii ''xy''],
      phrase_analysis = None, phrase_line_number = 7, beat_positions = [],
      phrase_gati = None\<rparr>
   = [token_length_issue
        \<lparr>swaras = [ascii ''SR'', ascii ''-''], sahitya = [ascii ''ab'', ascii ''xy''],
         phrase_analysis = None, phrase_line_number = 7, beat_positions = [],
         phrase_gati = None\<rparr> 1]"
  using validate_compares_raw_lengths
          [of "\<lparr>swaras = [ascii ''SR'', ascii ''-''], sahitya = [ascii ''ab'', ascii ''xy''],
                phrase_analysis = None, phrase_line_number = 7, beat_positions = [],
                phrase_gati = None\<rparr>"]
  by (simp add: ascii_def upt_conv_Cons)

section \<open>validate always returns\<close>

text \<open>
  C3. For every input text \<open>validate\<close> returns a list of diagnostics: the model has a
  branch for every exception of the source, and \<open>validate\<close> is total. Either \<open>parse\<close>
  produced a document and the list holds the diagnostics of that document (possibly
  none), or \<open>parse\<close> threw and the list is one diagnostic of severity error.
\<close>

theorem validate_returns:
  "(\<exists>document this'. parse this content = (Inr document, this')
        \<and> validate this content = (validate_document document, this'))
   \<or> (\<exists>e this'. parse this content = (Inl e, this')
        \<and> validate this content
            = ([\<lparr>severity = Error, message = error_message e, line = currentLine this' + 1\<rparr>],
               this')
        \<and> (\<exists>i\<in>set (fst (validate this content)). severity i = Error))"
proof (cases "parse this content")
  case (Pair r this')
  then show ?thesis by (cases r) (simp_all add: validate_def)
qed

section \<open>Frontmatter that is never closed\<close>

lemma unclosed_parse:
  "parse new_VnaParser unclosed_frontmatter_input =
     (Inr \<lparr>metadata =
             \<lparr>text_fields = [ascii ''title'' \<mapsto> ascii ''Test'',
                              ascii ''raga'' \<mapsto> ascii ''mohanam'',
                              ascii ''tala'' \<mapsto> ascii ''adi''],
              tempo = None, metadata_gati = None\<rparr>,
           sections = []\<rparr>,
      \<lparr>lines = split unclosed_frontmatter_input 0xA, currentLine = 7\<rparr>)"
  by (simp add: unclosed_frontmatter_input_def string_defs parser_defs Let_def)

text \<open>
  C4 at \<open>unclosed_frontmatter_input\<close>, whose frontmatter has the three required fields and
  no closing delimiter: \<open>parse\<close> does not fail. It reads the section and its phrase as
  frontmatter lines and returns a document without sections, and \<open>validate\<close> returns no
  diagnostic.
\<close>

theorem unclosed_frontmatter_accepted:
  "map_sum id sections (fst (parse new_VnaParser unclosed_frontmatter_input)) = Inr []
   \<and> fst (validate new_VnaParser unclosed_frontmatter_input) = []"
  by (simp add: validate_defs unclosed_parse)

section \<open>Gati lines\<close>

lemma line_gati_parse:
  "parse new_VnaParser line_gati_input =
     (Inr \<lparr>metadata =
             \<lparr>text_fields = [ascii ''title'' \<mapsto> ascii ''Test'',
                              ascii ''raga'' \<mapsto> ascii ''mohanam'',
                              ascii ''tala'' \<mapsto> ascii ''adi''],
              tempo = None, metadata_gati = Some (Num 4)\<rparr>,
           sections =
             [\<lparr>name = ascii ''pallavi'',
               phrases =
                 [\<lparr>swaras = [ascii ''SRG'', ascii ''MPD''],
                   sahitya = [ascii ''---'', ascii ''---''],
                   phrase_analysis = None, phrase_line_number = 9,
                   beat_positions = [], phrase_gati = None\<rparr>,
                  \<lparr>swaras = [ascii ''SRGMP'', ascii ''DPMGR''],
                   sahitya = [ascii ''-----'', ascii ''-----''],
                   phrase_analysis = None, phrase_line_number = 12,
                   beat_positions = [], phrase_gati = None\<rparr>],
               section_line_number = 7, section_gati = Some (Num 5)\<rparr>]\<rparr>,
      \<lparr>lines = split line_gati_input 0xA, currentLine = 13\<rparr>)"
  by (simp add: line_gati_input_def string_defs parser_defs Let_def)

text \<open>
  C7 at \<open>line_gati_input\<close>: the metadata has gati 4, the section starts with a gati line
  of 3, and its second phrase has a gati line of 5 of its own. The loop of \<open>parseSection\<close>
  takes every gati line for the section's, so the branch of \<open>parsePhrase\<close> for a line gati
  is never reached: the section ends with gati 5, no phrase has a gati, and both phrases
  resolve to 5, where the claim has 3 for the first and 5 for the second.
\<close>

theorem line_gati_replaces_section_gati:
  "map_sum id (metadata_gati \<circ> metadata) (fst (parse new_VnaParser line_gati_input))
     = Inr (Some (Num 4))
   \<and> map_sum id (map section_gati \<circ> sections) (fst (parse new_VnaParser line_gati_input))
       = Inr [Some (Num 5)]
   \<and> map_sum id (map (map phrase_gati \<circ> phrases) \<circ> sections)
       (fst (parse new_VnaParser line_gati_input)) = Inr [[None, None]]
   \<and> map_sum id effective_gatis (fst (parse new_VnaParser line_gati_input))
       = Inr [[Num 5, Num 5]]"
  by (simp add: line_gati_parse effective_gatis_def effectiveGati_def truthy_num_def
        num_truthy_def)

section \<open>Numeric fields that are not numbers\<close>

lemma nonnumeric_parse:
  "parse new_VnaParser nonnumeric_tempo_input =
     (Inr \<lparr>metadata =
             \<lparr>text_fields = [ascii ''title'' \<mapsto> ascii ''Test'',
                              ascii ''raga'' \<mapsto> ascii ''mohanam'',
                              ascii ''tala'' \<mapsto> ascii ''adi''],
              tempo = Some NaN, metadata_gati = None\<rparr>,
           sections =
             [\<lparr>name = ascii ''pallavi'',
               phrases =
                 [\<lparr>swaras = [ascii ''SR''], sahitya = [ascii ''ab''],
                   phrase_analysis = None, phrase_line_number = 8,
                   beat_positions = [], phrase_gati = None\<rparr>],
               section_line_number = 7, section_gati = None\<rparr>]\<rparr>,
      \<lparr>lines = split nonnumeric_tempo_input 0xA, currentLine = 9\<rparr>)"
  by (simp add: nonnumeric_tempo_input_def string_defs parser_defs Let_def)

text \<open>
  C8, as the claim states it, fails: on \<open>nonnumeric_tempo_input\<close>, whose frontmatter has
  the line \<open>tempo: fast\<close>, \<open>parse\<close> succeeds with a document whose tempo is \<open>NaN\<close>, and
  \<open>validate\<close> returns no diagnostic.
\<close>

theorem nonnumeric_tempo_counterexample:
  "map_sum id (tempo \<circ> metadata) (fst (parse new_VnaParser nonnumeric_tempo_input))
     = Inr (Some NaN)
   \<and> fst (validate new_VnaParser nonnumeric_tempo_input) = []"
  by (simp add: validate_defs nonnumeric_parse ascii_def)

lemma key_distinct:
  "ascii ''tempo'' \<noteq> ascii ''gati''" "ascii ''tempo'' \<noteq> ascii ''__proto__''"
  "ascii ''gati'' \<noteq> ascii ''__proto__''"
  by (simp_all add: ascii_def)

lemma assign_numeric_text:
  "is_numeric_line ln \<Longrightarrow> text_fields (assign_yaml md ln) = text_fields md"
  by (auto simp: is_numeric_line_def assign_yaml_def split: option.splits)

lemma assign_text_cong:
  "text_fields md = text_fields md' \<Longrightarrow>
     text_fields (assign_yaml md ln) = text_fields (assign_yaml md' ln)"
  by (auto simp: assign_yaml_def split: option.splits)

lemma foldl_text_filter:
  "text_fields md = text_fields md' \<Longrightarrow>
     text_fields (foldl assign_yaml md lns)
       = text_fields (foldl assign_yaml md' (filter (\<lambda>l. \<not> is_numeric_line l) lns))"
proof (induction lns arbitrary: md md')
  case Nil
  then show ?case by simp
next
  case (Cons ln lns)
  show ?case
  proof (cases "is_numeric_line ln")
    case True
    with Cons.prems have "text_fields (assign_yaml md ln) = text_fields md'"
      by (simp add: assign_numeric_text)
    from Cons.IH [OF this] True show ?thesis by simp
  next
    case False
    from Cons.IH [OF assign_text_cong [OF Cons.prems, of ln]] False show ?thesis by simp
  qed
qed

lemma text_fields_other:
  "text_fields (foldl assign_yaml empty_metadata (frontmatter_lines content))
     = other_fields content"
  unfolding other_fields_def by (rule foldl_text_filter) simp

lemma assign_other_key_tempo:
  "(\<forall>v. match_yaml l \<noteq> Some (ascii ''tempo'', v)) \<Longrightarrow> tempo (assign_yaml md l) = tempo md"
  by (auto simp: assign_yaml_def split: option.splits)

lemma assign_other_key_gati:
  "(\<forall>v. match_yaml l \<noteq> Some (ascii ''gati'', v)) \<Longrightarrow>
     metadata_gati (assign_yaml md l) = metadata_gati md"
  by (auto simp: assign_yaml_def key_distinct split: option.splits)

lemma foldl_keeps_tempo:
  "\<forall>l\<in>set post. \<forall>v. match_yaml l \<noteq> Some (ascii ''tempo'', v) \<Longrightarrow>
     tempo (foldl assign_yaml md post) = tempo md"
  by (induction post arbitrary: md) (simp_all add: assign_other_key_tempo)

lemma foldl_keeps_gati:
  "\<forall>l\<in>set post. \<forall>v. match_yaml l \<noteq> Some (ascii ''gati'', v) \<Longrightarrow>
     metadata_gati (foldl assign_yaml md post) = metadata_gati md"
  by (induction post arbitrary: md) (simp_all add: assign_other_key_gati)

lemma last_numeric_line_wins:
  assumes "match_yaml ln = Some (key, val)"
    and "\<forall>l\<in>set post. \<forall>v. match_yaml l \<noteq> Some (key, v)"
  shows "key = ascii ''tempo'' \<Longrightarrow>
           tempo (foldl assign_yaml md (pre @ [ln] @ post)) = Some (parseInt val)"
    and "key = ascii ''gati'' \<Longrightarrow>
           metadata_gati (foldl assign_yaml md (pre @ [ln] @ post)) = Some (parseInt val)"
  using assms
  by (simp_all add: foldl_keeps_tempo foldl_keeps_gati assign_yaml_def key_distinct
        key_distinct [symmetric])

lemma parseMetadata_complete:
  assumes "frontmatter_complete content"
  shows "parseMetadata \<lparr>lines = split content 0xA, currentLine = 0\<rparr>
           = (Inr (foldl assign_yaml empty_metadata (frontmatter_lines content)),
              snd (read_yaml (advanceLine \<lparr>lines = split content 0xA, currentLine = 0\<rparr>) []))"
  using assms
  by (simp add: parseMetadata_def frontmatter_complete_def Let_def split_beta
        text_fields_other frontmatter_lines_def [symmetric])

lemma parseMetadata_incomplete:
  assumes "\<not> frontmatter_complete content"
  shows "\<exists>t. parseMetadata \<lparr>lines = split content 0xA, currentLine = 0\<rparr>
                = (Inl MissingFrontmatter, t)
             \<or> parseMetadata \<lparr>lines = split content 0xA, currentLine = 0\<rparr>
                  = (Inl MissingRequiredFields, t)"
  using assms
  by (auto simp: parseMetadata_def frontmatter_complete_def Let_def split_beta
        text_fields_other frontmatter_lines_def [symmetric])

lemma parse_metadata_of:
  assumes "parse p content = (Inr d, t)"
  shows "metadata d = foldl assign_yaml empty_metadata (frontmatter_lines content)"
  using assms
  by (auto simp: parse_def reset_instance parseMetadata_def Let_def split_beta
        frontmatter_lines_def split: if_splits sum.splits prod.splits)

lemma parseInt_no_integer:
  assumes "case dropWhile is_ws v of [] \<Rightarrow> True
           | c # r \<Rightarrow> \<not> is_digit c \<and> c \<noteq> 0x2B \<and> c \<noteq> 0x2D"
  shows "parseInt v = NaN"
proof (cases "dropWhile is_ws v")
  case Nil
  show ?thesis unfolding parseInt_def Nil by simp
next
  case (Cons c r)
  with assms have "\<not> is_digit c" "c \<noteq> 0x2B" "c \<noteq> 0x2D" by simp_all
  then show ?thesis unfolding parseInt_def Cons by simp
qed

lemma digit_no_ws: "is_digit c \<Longrightarrow> \<not> is_ws c \<and> c \<noteq> 0x2B \<and> c \<noteq> 0x2D"
  by (auto simp: is_digit_def is_ws_def word_le_nat_alt)

lemma takeWhile_run:
  "list_all P z \<Longrightarrow> (case rest of [] \<Rightarrow> True | c # r \<Rightarrow> \<not> P c) \<Longrightarrow>
     takeWhile P (z @ rest) = z"
  by (cases rest) (simp_all add: list_all_iff)

lemma parseInt_leading_integer:
  assumes "list_all is_ws ws" and "z \<noteq> []" and "list_all is_digit z"
    and "case rest of [] \<Rightarrow> True | c # r \<Rightarrow> \<not> is_digit c"
  shows "parseInt (ws @ z @ rest) = number_of False (nat (decimal_value z))"
proof -
  from assms(2) obtain c z' where z: "z = c # z'" by (cases z) auto
  with assms(3) have c: "is_digit c" and z': "list_all is_digit z'" by simp_all
  from assms(1) c have dw: "dropWhile is_ws (ws @ z @ rest) = c # z' @ rest"
    by (simp add: z dropWhile_append3 digit_no_ws list_all_iff)
  have tw: "takeWhile is_digit (z' @ rest) = z'"
    using z' assms(4) by (rule takeWhile_run)
  from c digit_no_ws [OF c] show ?thesis
    unfolding parseInt_def dw by (simp add: tw z)
qed

text \<open>
  C8, amended. A frontmatter line that sets \<open>tempo\<close> or \<open>gati\<close> never makes \<open>parse\<close> fail,
  whatever its value. Whether the frontmatter is accepted is decided without these lines:
  when the text starts with the delimiter and the other lines give a title, a raga and a
  tala, \<open>parseMetadata\<close> returns the metadata and \<open>parse\<close> goes on with the sections; when
  not, \<open>parse\<close> throws \<open>Missing YAML frontmatter\<close> or \<open>Missing required metadata fields\<close>,
  which name no numeric field. In a document that \<open>parse\<close> returns, \<open>tempo\<close> and \<open>gati\<close> are
  \<open>parseInt(value, 10)\<close> of the last frontmatter line that sets them: \<open>NaN\<close> for a value
  that, after white space, starts with neither a digit nor a sign, and the number of the
  leading digits for a value that starts with digits, whatever follows them.
\<close>

theorem numeric_fields_never_fail:
  "(frontmatter_complete content \<longrightarrow>
      (\<exists>md s1. parseMetadata \<lparr>lines = split content 0xA, currentLine = 0\<rparr> = (Inr md, s1)
         \<and> text_fields md = other_fields content
         \<and> parse p content =
             (case parseSections s1 of
                (Inl e, t) \<Rightarrow> (Inl e, t)
              | (Inr secs, t) \<Rightarrow> (Inr \<lparr>metadata = md, sections = secs\<rparr>, t))))
   \<and> (\<not> frontmatter_complete content \<longrightarrow>
        (\<exists>t. parse p content = (Inl MissingFrontmatter, t)
            \<or> parse p content = (Inl MissingRequiredFields, t)))
   \<and> (parse p content = (Inr d, t')
        \<and> frontmatter_lines content = pre @ [ln] @ post
        \<and> match_yaml ln = Some (key, val)
        \<and> (\<forall>l\<in>set post. \<forall>v. match_yaml l \<noteq> Some (key, v)) \<longrightarrow>
        (key = ascii ''tempo'' \<longrightarrow> tempo (metadata d) = Some (parseInt val))
        \<and> (key = ascii ''gati'' \<longrightarrow> metadata_gati (metadata d) = Some (parseInt val)))
   \<and> ((case dropWhile is_ws v of [] \<Rightarrow> True
        | c # r \<Rightarrow> \<not> is_digit c \<and> c \<noteq> 0x2B \<and> c \<noteq> 0x2D) \<longrightarrow> parseInt v = NaN)
   \<and> (list_all is_ws ws \<and> z \<noteq> [] \<and> list_all is_digit z
        \<and> (case rest of [] \<Rightarrow> True | c # r \<Rightarrow> \<not> is_digit c) \<longrightarrow>
        parseInt (ws @ z @ rest) = number_of False (nat (decimal_value z)))"
proof (intro conjI impI)
  assume c: "frontmatter_complete content"
  let ?md = "foldl assign_yaml empty_metadata (frontmatter_lines content)"
  let ?s1 = "snd (read_yaml (advanceLine \<lparr>lines = split content 0xA, currentLine = 0\<rparr>) [])"
  from parseMetadata_complete [OF c]
  have pm: "parseMetadata \<lparr>lines = split content 0xA, currentLine = 0\<rparr> = (Inr ?md, ?s1)" .
  then have "parse p content =
             (case parseSections ?s1 of
                (Inl e, t) \<Rightarrow> (Inl e, t)
              | (Inr secs, t) \<Rightarrow> (Inr \<lparr>metadata = ?md, sections = secs\<rparr>, t))"
    by (simp add: parse_def reset_instance)
  with pm text_fields_other [of content]
  show "\<exists>md s1. parseMetadata \<lparr>lines = split content 0xA, currentLine = 0\<rparr> = (Inr md, s1)
         \<and> text_fields md = other_fields content
         \<and> parse p content =
             (case parseSections s1 of
                (Inl e, t) \<Rightarrow> (Inl e, t)
              | (Inr secs, t) \<Rightarrow> (Inr \<lparr>metadata = md, sections = secs\<rparr>, t))"
    by blast
next
  assume "\<not> frontmatter_complete content"
  from parseMetadata_incomplete [OF this]
  show "\<exists>t. parse p content = (Inl MissingFrontmatter, t)
            \<or> parse p content = (Inl MissingRequiredFields, t)"
    by (auto simp: parse_def reset_instance)
next
  assume a: "parse p content = (Inr d, t')
        \<and> frontmatter_lines content = pre @ [ln] @ post
        \<and> match_yaml ln = Some (key, val)
        \<and> (\<forall>l\<in>set post. \<forall>v. match_yaml l \<noteq> Some (key, v))"
  then have md: "metadata d = foldl assign_yaml empty_metadata (pre @ [ln] @ post)"
    using parse_metadata_of [of p content d t'] by simp
  { assume "key = ascii ''tempo''"
    with last_numeric_line_wins(1) [of ln key val post empty_metadata pre] a md
    show "tempo (metadata d) = Some (parseInt val)" by simp }
  { assume "key = ascii ''gati''"
    with last_numeric_line_wins(2) [of ln key val post empty_metadata pre] a md
    show "metadata_gati (metadata d) = Some (parseInt val)" by simp }
next
  assume "case dropWhile is_ws v of [] \<Rightarrow> True
        | c # r \<Rightarrow> \<not> is_digit c \<and> c \<noteq> 0x2B \<and> c \<noteq> 0x2D"
  then show "parseInt v = NaN" by (rule parseInt_no_integer)
next
  assume "list_all is_ws ws \<and> z \<noteq> [] \<and> list_all is_digit z
        \<and> (case rest of [] \<Rightarrow> True | c # r \<Rightarrow> \<not> is_digit c)"
  then show "parseInt (ws @ z @ rest) = number_of False (nat (decimal_value z))"
    by (simp add: parseInt_leading_integer)
qed

theorem numeric_fields_never_fail_witness:
  "frontmatter_complete truncated_gati_input
   \<and> frontmatter_lines truncated_gati_input
       = [ascii ''title: \"Test\"'', ascii ''raga: \"mohanam\"'', ascii ''tala: \"adi\"'']
           @ [ascii ''gati: 12abc''] @ [ascii ''tempo: fast'']
   \<and> match_yaml (ascii ''gati: 12abc'') = Some (ascii ''gati'', ascii ''12abc'')
   \<and> match_yaml (ascii ''tempo: fast'') = Some (ascii ''tempo'', ascii ''fast'')
   \<and> parse new_VnaParser truncated_gati_input
       = (Inr \<lparr>metadata =
                 \<lparr>text_fields = [ascii ''title'' \<mapsto> ascii ''Test'',
                                  ascii ''raga'' \<mapsto> ascii ''mohanam'',
                                  ascii ''tala'' \<mapsto> ascii ''adi''],
                  tempo = Some NaN, metadata_gati = Some (Num 12)\<rparr>,
               sections = []\<rparr>,
          \<lparr>lines = split truncated_gati_input 0xA, currentLine = 7\<rparr>)
   \<and> metadata_gati (metadata (projr (fst (parse new_VnaParser truncated_gati_input))))
       = Some (parseInt (ascii ''12abc''))
   \<and> parseInt (ascii ''fast'') = NaN
   \<and> parseInt ([] @ ascii ''12'' @ ascii ''abc'') = Num 12
   \<and> \<not> frontmatter_complete tempo_only_input
   \<and> parse new_VnaParser tempo_only_input
       = (Inl MissingRequiredFields,
          \<lparr>lines = split tempo_only_input 0xA, currentLine = 3\<rparr>)"
proof -
  let ?d = "\<lparr>metadata =
                 \<lparr>text_fields = [ascii ''title'' \<mapsto> ascii ''Test'',
                                  ascii ''raga'' \<mapsto> ascii ''mohanam'',
                                  ascii ''tala'' \<mapsto> ascii ''adi''],
                  tempo = Some NaN, metadata_gati = Some (Num 12)\<rparr>,
               sections = []\<rparr>"
  let ?t = "\<lparr>lines = split truncated_gati_input 0xA, currentLine = 7\<rparr>"
  let ?pre = "[ascii ''title: \"Test\"'', ascii ''raga: \"mohanam\"'', ascii ''tala: \"adi\"'']"
  have fl: "frontmatter_lines truncated_gati_input
              = ?pre @ [ascii ''gati: 12abc''] @ [ascii ''tempo: fast'']"
    by (simp add: frontmatter_lines_def truncated_gati_input_def string_defs parser_defs
          Let_def)
  have fc: "frontmatter_complete truncated_gati_input"
    unfolding frontmatter_complete_def other_fields_def fl
    by (simp add: is_numeric_line_def truncated_gati_input_def string_defs parser_defs)
  have mg: "match_yaml (ascii ''gati: 12abc'') = Some (ascii ''gati'', ascii ''12abc'')"
    by (simp add: match_yaml_def string_defs)
  have mt: "match_yaml (ascii ''tempo: fast'') = Some (ascii ''tempo'', ascii ''fast'')"
    by (simp add: match_yaml_def string_defs)
  have po: "\<forall>l\<in>set [ascii ''tempo: fast'']. \<forall>v. match_yaml l \<noteq> Some (ascii ''gati'', v)"
    by (simp add: match_yaml_def string_defs)
  have pa: "parse new_VnaParser truncated_gati_input = (Inr ?d, ?t)"
    by (simp add: truncated_gati_input_def string_defs parser_defs Let_def)
  have nf: "case dropWhile is_ws (ascii ''fast'') of [] \<Rightarrow> True
            | c # r \<Rightarrow> \<not> is_digit c \<and> c \<noteq> 0x2B \<and> c \<noteq> 0x2D"
    by (simp add: string_defs)
  have li: "list_all is_ws [] \<and> ascii ''12'' \<noteq> [] \<and> list_all is_digit (ascii ''12'')
            \<and> (case ascii ''abc'' of [] \<Rightarrow> True | c # r \<Rightarrow> \<not> is_digit c)"
    by (simp add: string_defs)
  have fl2: "frontmatter_lines tempo_only_input = [ascii ''tempo: fast'']"
    by (simp add: frontmatter_lines_def tempo_only_input_def string_defs parser_defs
          Let_def)
  have nc: "\<not> frontmatter_complete tempo_only_input"
    unfolding frontmatter_complete_def other_fields_def fl2
    by (simp add: is_numeric_line_def mt empty_metadata_def falsy_text_def)
  have p2: "parse new_VnaParser tempo_only_input
       = (Inl MissingRequiredFields, \<lparr>lines = split tempo_only_input 0xA, currentLine = 3\<rparr>)"
    by (simp add: tempo_only_input_def string_defs parser_defs Let_def)
  from numeric_fields_never_fail
         [of truncated_gati_input new_VnaParser ?d ?t ?pre "ascii ''gati: 12abc''"
             "[ascii ''tempo: fast'']" "ascii ''gati''" "ascii ''12abc''" "ascii ''fast''"
             "[]" "ascii ''12''" "ascii ''abc''"]
       numeric_fields_never_fail [of tempo_only_input new_VnaParser]
       fl fc mg mt po pa nf li nc p2
  show ?thesis by (simp add: string_defs)
qed

section \<open>The swara tokenizer refines its specification\<close>

lemma inert_markers: "inert 0x31" "inert 0x32" "inert 0x33" "inert 0x2E" "inert 0x27"
  by (simp_all add: inert_def is_swara_letter_def ascii_def)

lemma spec_skip_inert:
  "\<forall>x\<in>set pre. inert x \<Longrightarrow> swara_tokenizer_spec (pre @ s) = swara_tokenizer_spec s"
  by (induction pre) (simp_all add: notes_at_def inert_def)

lemma read_variant_spec:
  assumes "read_variant r = (v, r1)"
  shows "\<exists>pre. r = pre @ r1 \<and> (\<forall>x\<in>set pre. inert x)"
    and "map_option (\<lambda>d. nat (digit_value d)) v = variant_after r"
    and "r1 = (if variant_after r = None then r else tl r)"
proof -
  show "\<exists>pre. r = pre @ r1 \<and> (\<forall>x\<in>set pre. inert x)"
  proof (cases v)
    case None
    with assms have "r1 = r" by (auto simp: read_variant_def split: list.splits if_splits)
    then show ?thesis by simp
  next
    case (Some d)
    with assms have "r = [d] @ r1" "d \<in> set (ascii ''123'')"
      by (auto simp: read_variant_def split: list.splits if_splits)
    moreover from this(2) have "inert d" using inert_markers by (auto simp: ascii_def)
    ultimately show ?thesis by (metis empty_iff insert_iff list.set(1) list.simps(15))
  qed
  show "map_option (\<lambda>d. nat (digit_value d)) v = variant_after r"
    using assms
    by (auto simp: read_variant_def variant_after_def ascii_def digit_value_def
             split: list.splits if_splits)
  show "r1 = (if variant_after r = None then r else tl r)"
    using assms
    by (auto simp: read_variant_def variant_after_def ascii_def split: list.splits if_splits)
qed

lemma takeWhile_all_inert:
  "inert c \<Longrightarrow> \<forall>x\<in>set (takeWhile (\<lambda>x. x = c) s). inert x"
  by (auto dest: set_takeWhileD)

lemma run_other_zero:
  "c \<noteq> d \<Longrightarrow> 0 < run_length d s \<Longrightarrow> run_length c s = 0"
  by (cases s) (auto simp: run_length_def)

lemma read_octave_spec:
  assumes "read_octave r1 = (oct, r3)"
  shows "\<exists>pre. r1 = pre @ r3 \<and> (\<forall>x\<in>set pre. inert x)"
    and "octave_shift oct = octave_after r1"
proof -
  let ?dots = "takeWhile (\<lambda>x. x = 0x2E) r1"
  let ?r2 = "dropWhile (\<lambda>x. x = 0x2E) r1"
  let ?aps = "takeWhile (\<lambda>x. x = 0x27) ?r2"
  have split1: "r1 = ?dots @ ?r2" by simp
  have split2: "?r2 = ?aps @ dropWhile (\<lambda>x. x = 0x27) ?r2" by simp
  have in1: "\<forall>x\<in>set ?dots. inert x" using takeWhile_all_inert inert_markers(4) by blast
  have in2: "\<forall>x\<in>set ?aps. inert x" using takeWhile_all_inert inert_markers(5) by blast
  show "\<exists>pre. r1 = pre @ r3 \<and> (\<forall>x\<in>set pre. inert x)"
  proof (cases "length ?dots = 1 \<or> length ?dots = 2")
    case True
    with assms have "r3 = ?r2" by (auto simp: read_octave_def Let_def split: if_splits)
    with split1 in1 show ?thesis by metis
  next
    case False
    with assms have "r3 = dropWhile (\<lambda>x. x = 0x27) ?r2"
      by (auto simp: read_octave_def Let_def split: if_splits)
    then have "r1 = (?dots @ ?aps) @ r3" using split1 split2 by (metis append.assoc)
    moreover have "\<forall>x\<in>set (?dots @ ?aps). inert x" using in1 in2 by auto
    ultimately show ?thesis by blast
  qed
  show "octave_shift oct = octave_after r1"
  proof (cases "length ?dots = 1 \<or> length ?dots = 2")
    case True
    with assms show ?thesis
      by (auto simp: read_octave_def Let_def octave_shift_def octave_after_def run_length_def
               split: if_splits)
  next
    case False
    note nd = this
    show ?thesis
    proof (cases "length ?dots = 0")
      case True
      then have "?r2 = r1" by (cases r1) (auto split: if_splits)
      with True assms show ?thesis
        by (auto simp: read_octave_def Let_def octave_shift_def octave_after_def run_length_def
                 split: if_splits)
    next
      case False
      with nd have big: "3 \<le> length ?dots" by arith
      then have "0 < run_length 0x2E r1" by (auto simp: run_length_def)
      from run_other_zero [OF _ this, of "0x27"] have z: "run_length 0x27 r1 = 0" by simp
      from big assms have "oct = None"
        by (auto simp: read_octave_def Let_def split: if_splits)
      with big z show ?thesis
        by (auto simp: octave_shift_def octave_after_def run_length_def Let_def)
    qed
  qed
qed

lemma scan_swaras_spec: "map note_of (scan_swaras s) = swara_tokenizer_spec s"
proof (induction s rule: scan_swaras.induct)
  case 1
  show ?case by (simp add: scan_swaras.simps)
next
  case (2 c r)
  consider (sustain) "c = 0x2C" | (rest) "c \<noteq> 0x2C" "c = 0x2D"
    | (letter) "c \<noteq> 0x2C" "c \<noteq> 0x2D" "is_swara_letter c"
    | (other) "c \<noteq> 0x2C" "c \<noteq> 0x2D" "\<not> is_swara_letter c"
    by blast
  then show ?case
  proof cases
    case sustain
    with "2.IH"(1) show ?thesis
      by (simp add: scan_swaras.simps notes_at_def note_of_def sustain_swara_def)
  next
    case rest
    with "2.IH"(2) show ?thesis
      by (simp add: scan_swaras.simps notes_at_def note_of_def rest_swara_def)
  next
    case letter
    obtain v r1 where rv: "read_variant r = (v, r1)" by (cases "read_variant r")
    obtain oct r3 where ro: "read_octave r1 = (oct, r3)" by (cases "read_octave r1")
    from read_variant_spec [OF rv] obtain pre1 where
      p1: "r = pre1 @ r1" "\<forall>x\<in>set pre1. inert x"
      and v: "map_option (\<lambda>d. nat (digit_value d)) v = variant_after r"
      and r1: "r1 = (if variant_after r = None then r else tl r)" by blast
    from read_octave_spec [OF ro] obtain pre2 where
      p2: "r1 = pre2 @ r3" "\<forall>x\<in>set pre2. inert x"
      and oc: "octave_shift oct = octave_after r1" by blast
    have skip: "swara_tokenizer_spec r = swara_tokenizer_spec r3"
      using spec_skip_inert [OF p1(2), of r1] spec_skip_inert [OF p2(2), of r3] p1(1) p2(1)
      by simp
    have ih: "map note_of (scan_swaras r3) = swara_tokenizer_spec r3"
      using "2.IH"(3) [OF letter rv [symmetric] ro [symmetric]] .
    have "scan_swaras (c # r) =
            \<lparr>swara = c, variant = v, octave = oct, isRest = False, isSustain = False\<rparr>
              # scan_swaras r3"
      using letter rv ro by (simp add: scan_swaras.simps)
    moreover have "notes_at c r = [Natural c (variant_after r) (octave_after r1)]"
      using letter r1 by (simp add: notes_at_def)
    moreover have
      "note_of \<lparr>swara = c, variant = v, octave = oct, isRest = False, isSustain = False\<rparr>
         = Natural c (variant_after r) (octave_after r1)"
      using v oc by (simp add: note_of_def)
    ultimately show ?thesis using ih skip by simp
  next
    case other
    with "2.IH"(4) show ?thesis by (simp add: scan_swaras.simps notes_at_def)
  qed
qed

lemma scan_or_token_spec: "map note_of (parseSwaraLine token) = swara_tokenizer_spec token"
proof -
  have "map note_of [rest_swara] = swara_tokenizer_spec (ascii ''-'')"
    by (simp add: note_of_def rest_swara_def notes_at_def ascii_def)
  moreover have "map note_of [sustain_swara] = swara_tokenizer_spec (ascii '','')"
    by (simp add: note_of_def sustain_swara_def notes_at_def ascii_def)
  ultimately show ?thesis by (simp add: parseSwaraLine_def scan_swaras_spec)
qed

lemma letter_not_marker: "is_swara_letter c \<Longrightarrow> c \<noteq> 0x2D \<and> c \<noteq> 0x2C"
  by (auto simp: is_swara_letter_def ascii_def)

lemma spec_rest_count:
  "length (filter (\<lambda>n. n = Rest) (swara_tokenizer_spec s)) = length (filter (\<lambda>c. c = 0x2D) s)"
  by (induction s) (simp_all add: notes_at_def)

lemma spec_sustain_count:
  "length (filter (\<lambda>n. n = Sustain) (swara_tokenizer_spec s))
     = length (filter (\<lambda>c. c = 0x2C) s)"
  by (induction s) (simp_all add: notes_at_def)

lemma spec_natural_count:
  "length (filter (\<lambda>n. n \<noteq> Rest \<and> n \<noteq> Sustain) (swara_tokenizer_spec s))
     = length (filter is_swara_letter s)"
  by (induction s) (auto simp: notes_at_def dest: letter_not_marker)

lemma variant_after_range: "variant_after s \<in> {None, Some 1, Some 2, Some 3}"
  by (simp add: variant_after_def split: list.splits)

lemma octave_after_range: "- 2 \<le> octave_after s \<and> octave_after s \<le> 2"
  by (auto simp: octave_after_def Let_def)

lemma spec_wellformed: "\<forall>n\<in>set (swara_tokenizer_spec s). wellformed_note n"
proof (induction s)
  case Nil
  show ?case by simp
next
  case (Cons c s)
  have "\<forall>n\<in>set (notes_at c s). wellformed_note n"
    using variant_after_range octave_after_range
    by (simp add: notes_at_def wellformed_note_def)
  with Cons show ?case by auto
qed

text \<open>
  The tokenizer of lib/vna-parser-wasm.ts meets the description of the specification.
  For every raw swara token, the notes it returns are those of \<open>swara_tokenizer_spec\<close>:
  one rest for each \<open>-\<close> and one sustain for each \<open>,\<close>, alone or inside a longer token and
  whatever stands next to it; one natural note for each letter of S R G M P D N, with the
  digit 1, 2 or 3 that follows it as variant, then a run of one or two dots as lower
  octaves, else a run of one or two apostrophes as upper octaves. So there are as many
  rests as \<open>-\<close>, as many sustains as \<open>,\<close> and as many natural notes as letters, and every
  natural note has no variant or the variant 1, 2 or 3 and one octave from -2 to 2: it
  never carries both markers. A run of three or more markers gives no octave.
\<close>

theorem parseSwaraLine_refines_spec:
  "map note_of (parseSwaraLine token) = swara_tokenizer_spec token
   \<and> length (filter (\<lambda>n. n = Rest) (map note_of (parseSwaraLine token)))
       = length (filter (\<lambda>c. c = 0x2D) token)
   \<and> length (filter (\<lambda>n. n = Sustain) (map note_of (parseSwaraLine token)))
       = length (filter (\<lambda>c. c = 0x2C) token)
   \<and> length (filter (\<lambda>n. n \<noteq> Rest \<and> n \<noteq> Sustain) (map note_of (parseSwaraLine token)))
       = length (filter is_swara_letter token)
   \<and> (\<forall>n\<in>set (map note_of (parseSwaraLine token)). wellformed_note n)"
  unfolding scan_or_token_spec
  using spec_rest_count spec_sustain_count spec_natural_count spec_wellformed by blast

theorem parseSwaraLine_refines_spec_witness:
  "map note_of (parseSwaraLine (ascii ''G,R1..-S'' @ [0x27, 0x27] @ ascii ''x.N...''))
     = [Natural 0x47 None 0, Sustain, Natural 0x52 (Some 1) (- 2), Rest,
        Natural 0x53 None 2, Natural 0x4E None 0]"
  using parseSwaraLine_refines_spec
          [of "ascii ''G,R1..-S'' @ [0x27, 0x27] @ ascii ''x.N...''", THEN conjunct1]
  by (simp add: ascii_def notes_at_def is_swara_letter_def variant_after_def octave_after_def
        run_length_def)

section \<open>The line tokenizer takes any digit as variant\<close>

text \<open>
  C6 fails for the line tokenizer of lib/vna-parser.ts. The claim lets a letter consume a
  following digit 1, 2 or 3 as variant; the regular expression of this tokenizer has \<open>\d\<close>
  there. So the token \<open>R9\<close> is one note with the variant 9, alone and before a sustain,
  where the tokenizer of lib/vna-parser-wasm.ts gives a note without variant. The two
  tokenizers also differ on a run of three dots: the regular expression takes two of
  them, and \<open>N...\<close> is a note two octaves down, where the other tokenizer gives no octave.
\<close>

theorem line_tokenizer_takes_any_digit:
  "parseSwaraLine_line (ascii ''R9'')
     = [\<lparr>line_swara = 0x52, line_variant = Some 9, line_octave = Middle, duration = 1,
         line_isRest = False, line_isSustain = False\<rparr>]
   \<and> parseSwaraLine_line (ascii ''R9,'')
     = [\<lparr>line_swara = 0x52, line_variant = Some 9, line_octave = Middle, duration = 1,
         line_isRest = False, line_isSustain = False\<rparr>, line_sustain]
   \<and> parseSwaraLine_line (ascii ''N...'')
     = [\<lparr>line_swara = 0x4E, line_variant = None, line_octave = LowerLower, duration = 1,
         line_isRest = False, line_isSustain = False\<rparr>]
   \<and> map note_of (parseSwaraLine (ascii ''R9'')) = [Natural 0x52 None 0]
   \<and> map note_of (parseSwaraLine (ascii ''N...'')) = [Natural 0x4E None 0]"
  by (simp add: line_defs string_defs Let_def parseSwaraLine_def scan_swaras.simps
        read_variant_def read_octave_def note_of_def octave_shift_def)

end
